theory Spec2Isabelle
  imports Complex_Main
begin

section \<open>JavaScript numbers and values\<close>

text \<open>
  The chart (the grouped-bar module of \<^verbatim>\<open>src/tasks/js-doc.js\<close>) computes with
  JavaScript numbers. A number is either \<^verbatim>\<open>NaN\<close> or finite; finite doubles are
  idealised as reals (rounding and the infinities are not modelled). Arithmetic with
  \<^verbatim>\<open>NaN\<close> gives \<^verbatim>\<open>NaN\<close> and every comparison with \<^verbatim>\<open>NaN\<close> is false, as in
  the language.
\<close>

datatype jsnum = NaN | Fin real

fun js_add :: "jsnum \<Rightarrow> jsnum \<Rightarrow> jsnum" where
  "js_add (Fin a) (Fin b) = Fin (a + b)"
| "js_add _ _ = NaN"

fun js_sub :: "jsnum \<Rightarrow> jsnum \<Rightarrow> jsnum" where
  "js_sub (Fin a) (Fin b) = Fin (a - b)"
| "js_sub _ _ = NaN"

fun js_mul :: "jsnum \<Rightarrow> jsnum \<Rightarrow> jsnum" where
  "js_mul (Fin a) (Fin b) = Fin (a * b)"
| "js_mul _ _ = NaN"

fun js_le :: "jsnum \<Rightarrow> jsnum \<Rightarrow> bool" where
  "js_le (Fin a) (Fin b) = (a \<le> b)"
| "js_le _ _ = False"

fun js_ge :: "jsnum \<Rightarrow> jsnum \<Rightarrow> bool" where
  "js_ge (Fin a) (Fin b) = (a \<ge> b)"
| "js_ge _ _ = False"

text \<open>
  The values a raw input row can hold: the primitive values, and \<open>JInherited\<close> for
  what a read finds in the prototype (see below). \<open>ToNumber\<close> is the unary plus of the
  language: \<^verbatim>\<open>undefined\<close> gives \<^verbatim>\<open>NaN\<close>, \<^verbatim>\<open>null\<close> gives 0, a boolean 1 or 0,
  a number itself, and a member of the prototype (a function, or the prototype object)
  \<^verbatim>\<open>NaN\<close>. The conversion of a string (the language's \<^verbatim>\<open>StringToNumber\<close>) is not
  modelled: it is a parameter.
\<close>

datatype jsval = JUndefined | JNull | JBool bool | JNum jsnum | JStr string | JInherited

fun ToNumber :: "(string \<Rightarrow> jsnum) \<Rightarrow> jsval \<Rightarrow> jsnum" where
  "ToNumber s2n JUndefined = NaN"
| "ToNumber s2n JNull = Fin 0"
| "ToNumber s2n (JBool b) = Fin (if b then 1 else 0)"
| "ToNumber s2n (JNum n) = n"
| "ToNumber s2n (JStr s) = s2n s"
| "ToNumber s2n JInherited = NaN"

text \<open>
  Objects. An object made by an object literal is a finite map of its own properties,
  on top of \<^verbatim>\<open>Object.prototype\<close>. Reading \<^verbatim>\<open>obj[k]\<close> finds the own property, else
  the member of the prototype of that name, else \<^verbatim>\<open>undefined\<close>. Writing
  \<^verbatim>\<open>obj[k] = v\<close> stores an own property, except under the key \<^verbatim>\<open>__proto__\<close>:
  that is the accessor of the prototype, and assigning a number, a string or
  \<^verbatim>\<open>undefined\<close> to it (or the prototype the object already has) stores nothing.
\<close>

definition object_prototype :: "string list" where
  "object_prototype =
     [''constructor'', ''__defineGetter__'', ''__defineSetter__'', ''hasOwnProperty'',
      ''__lookupGetter__'', ''__lookupSetter__'', ''isPrototypeOf'', ''propertyIsEnumerable'',
      ''toString'', ''valueOf'', ''__proto__'', ''toLocaleString'']"

datatype 'v lookup = Own 'v | Inherited | Missing

definition js_read :: "(string \<rightharpoonup> 'v) \<Rightarrow> string \<Rightarrow> 'v lookup" where
  "js_read obj k =
     (case obj k of
        Some v \<Rightarrow> Own v
      | None \<Rightarrow> if k \<in> set object_prototype then Inherited else Missing)"

definition js_write :: "(string \<rightharpoonup> 'v) \<Rightarrow> string \<Rightarrow> 'v \<Rightarrow> (string \<rightharpoonup> 'v)" where
  "js_write obj k v = (if k = ''__proto__'' then obj else obj(k \<mapsto> v))"

text \<open>\<^verbatim>\<open>Math.round\<close>: to the nearest integer, a half towards plus infinity.\<close>

definition Math_round :: "real \<Rightarrow> real" where
  "Math_round x = of_int \<lfloor>x + 1 / 2\<rfloor>"

section \<open>Data normalizer\<close>

text \<open>
  A raw row is an object. \<^verbatim>\<open>cleanData\<close> writes into the objects it is given (under
  the fixed keys \<^verbatim>\<open>value\<close>, \<^verbatim>\<open>group\<close>, \<^verbatim>\<open>topicName\<close> and \<^verbatim>\<open>name\<close>), and an
  array may hold the same object twice, so rows live in a store and the array holds
  their addresses.
\<close>

type_synonym row = "string \<rightharpoonup> jsval"


definition js_get :: "row \<Rightarrow> string \<Rightarrow> jsval" where
  "js_get d k = (case js_read d k of Own v \<Rightarrow> v | Inherited \<Rightarrow> JInherited | Missing \<Rightarrow> JUndefined)"

record labels =
  nameLabel :: string
  valueLabel :: string
  groupLabel :: string

text \<open>The body of the reducer of \<^verbatim>\<open>cleanData\<close>: four assignments, in this order.\<close>

definition cleanRecord :: "labels \<Rightarrow> (string \<Rightarrow> jsnum) \<Rightarrow> row \<Rightarrow> row" where
  "cleanRecord l s2n d =
     (let d1 = d(''value'' \<mapsto> JNum (ToNumber s2n (js_get d (valueLabel l))));
          d2 = d1(''group'' \<mapsto> js_get d1 (groupLabel l));
          d3 = d2(''topicName'' \<mapsto> js_get d2 (groupLabel l));
          d4 = d3(''name'' \<mapsto> js_get d3 (nameLabel l))
      in d4)"


section \<open>Records, and the library functions the grouping engine calls\<close>

text \<open>
  After normalization a record is what the module's \<^verbatim>\<open>GroupedBarChartData\<close> typedef
  says: a \<^verbatim>\<open>name\<close> (the category, a string), a \<^verbatim>\<open>group\<close> (a string) and a
  \<^verbatim>\<open>value\<close> (a number, which may be \<^verbatim>\<open>NaN\<close>). The fields are named after the
  module's getters \<^verbatim>\<open>getName\<close>, \<^verbatim>\<open>getGroup\<close> and \<^verbatim>\<open>getValue\<close>.

  The later stages also read a row through the aliases, \<^verbatim>\<open>d[nameLabel]\<close> and
  \<^verbatim>\<open>d[groupLabel]\<close>. On a row as \<^verbatim>\<open>cleanData\<close> has left it, the property named by
  \<^verbatim>\<open>nameLabel\<close> holds what \<^verbatim>\<open>name\<close> holds, whatever the alias (lemma
  \<open>cleanRecord_nameLabel\<close> below), so \<^verbatim>\<open>d[nameLabel]\<close> is \<open>getName\<close>. The property
  named by \<^verbatim>\<open>groupLabel\<close> holds what \<^verbatim>\<open>group\<close> holds, unless the group alias is
  \<^verbatim>\<open>name\<close>: the last assignment of \<^verbatim>\<open>cleanData\<close> has then overwritten it with the
  category (lemma \<open>cleanRecord_groupLabel\<close>). \<open>atGroupLabel\<close> is that read. (The
  hit-testers later add the properties \<^verbatim>\<open>values\<close> and \<^verbatim>\<open>key\<close> to a row they
  find; an alias of one of these two names is not modelled.)
\<close>

record datum =
  getName :: string
  getGroup :: string
  getValue :: jsnum

definition atGroupLabel :: "labels \<Rightarrow> datum \<Rightarrow> string" where
  "atGroupLabel l d = (if groupLabel l = ''name'' then getName d else getGroup d)"

text \<open>\<^verbatim>\<open>Array.prototype.indexOf\<close>: the first position, \<open>None\<close> for \<^verbatim>\<open>-1\<close>.\<close>

fun indexOf :: "'a list \<Rightarrow> 'a \<Rightarrow> nat option" where
  "indexOf [] e = None"
| "indexOf (x # xs) e = (if x = e then Some 0 else map_option Suc (indexOf xs e))"

text \<open>\<^verbatim>\<open>arrArg.filter((elem, pos, arr) => arr.indexOf(elem) == pos)\<close>\<close>

definition uniq :: "'a list \<Rightarrow> 'a list" where
  "uniq arrArg =
     map fst (filter (\<lambda>(elem, pos). indexOf arrArg elem = Some pos)
                     (zip arrArg [0 ..< length arrArg]))"

text \<open>
  \<^verbatim>\<open>nest().key(getName).entries(data)\<close> of d3-collection: the records are put, one
  after the other, into the bucket of their key; a key not seen before opens a new
  bucket behind the others.
\<close>

fun nest_add :: "datum \<Rightarrow> (string \<times> datum list) list \<Rightarrow> (string \<times> datum list) list" where
  "nest_add d [] = [(getName d, [d])]"
| "nest_add d ((k, vs) # bs) =
     (if k = getName d then (k, vs @ [d]) # bs else (k, vs) # nest_add d bs)"

definition nest_entries :: "datum list \<Rightarrow> (string \<times> datum list) list" where
  "nest_entries data = foldl (\<lambda>bs d. nest_add d bs) [] data"

text \<open>
  The object \<^verbatim>\<open>ret\<close> that the rollup builds holds numbers under the group keys and
  the array of the category's records under \<^verbatim>\<open>values\<close>. The key is
  \<^verbatim>\<open>entry[groupLabel]\<close>, and it is written only when it is truthy, that is a
  non-empty string: \<^verbatim>\<open>ret[entry[groupLabel]] = getValue(entry)\<close>.
\<close>

datatype cell = CNum jsnum | CRows "datum list"

definition rollup :: "labels \<Rightarrow> datum list \<Rightarrow> (string \<rightharpoonup> cell)" where
  "rollup l values =
     (foldl (\<lambda>ret entry.
               if atGroupLabel l entry \<noteq> []
               then js_write ret (atGroupLabel l entry) (CNum (getValue entry))
               else ret)
            Map.empty values)
     (''values'' \<mapsto> CRows values)"

text \<open>
  \<^verbatim>\<open>permute(source, keys)\<close> of d3-array reads \<^verbatim>\<open>source[key]\<close> for each key.
  \<^verbatim>\<open>sum(values)\<close> of d3-array adds \<^verbatim>\<open>+value\<close> where it is truthy, so it passes
  over \<^verbatim>\<open>undefined\<close>, \<^verbatim>\<open>NaN\<close> and zero. The unary plus of a member of the prototype
  and of an array of objects is \<^verbatim>\<open>NaN\<close>, of the empty array zero.
\<close>

definition permute :: "(string \<rightharpoonup> cell) \<Rightarrow> string list \<Rightarrow> cell lookup list" where
  "permute source keys = map (js_read source) keys"

fun cell_number :: "cell lookup \<Rightarrow> jsnum" where
  "cell_number Missing = NaN"
| "cell_number Inherited = NaN"
| "cell_number (Own (CNum n)) = n"
| "cell_number (Own (CRows vs)) = (if vs = [] then Fin 0 else NaN)"

definition d3_sum :: "cell lookup list \<Rightarrow> jsnum" where
  "d3_sum vs =
     Fin (foldl (\<lambda>s v. case cell_number v of
                          NaN \<Rightarrow> s
                        | Fin x \<Rightarrow> if x \<noteq> 0 then s + x else s) 0 vs)"

text \<open>
  \<^verbatim>\<open>max(values)\<close> of d3-array passes over \<^verbatim>\<open>NaN\<close> and answers \<^verbatim>\<open>undefined\<close>
  (\<open>None\<close>) when nothing is left.
\<close>

definition d3_max :: "jsnum list \<Rightarrow> jsnum option" where
  "d3_max vs =
     foldl (\<lambda>m v. case v of
                     NaN \<Rightarrow> m
                   | Fin x \<Rightarrow> (case m of
                                None \<Rightarrow> Some (Fin x)
                              | Some NaN \<Rightarrow> m
                              | Some (Fin y) \<Rightarrow> if y < x then Some (Fin x) else m))
           None vs"

text \<open>
  \<^verbatim>\<open>range(start, stop, step)\<close> of d3-array:
  \<^verbatim>\<open>n = Math.max(0, Math.ceil((stop - start) / step)) | 0\<close> values
  \<^verbatim>\<open>start + i * step\<close>. A zero step makes the quotient \<^verbatim>\<open>NaN\<close> or infinite, and
  \<^verbatim>\<open>| 0\<close> turns both into zero.
\<close>

definition d3_range :: "real \<Rightarrow> real \<Rightarrow> real \<Rightarrow> real list" where
  "d3_range start stop step =
     (let n = (if step = 0 then 0 else nat (max 0 \<lceil>(stop - start) / step\<rceil>))
      in map (\<lambda>i. start + real i * step) [0 ..< n])"

text \<open>
  A layer is the object \<^verbatim>\<open>Object.assign({}, {total, key}, ret)\<close>: one name space for
  \<^verbatim>\<open>total\<close>, \<^verbatim>\<open>key\<close>, \<^verbatim>\<open>values\<close> and the group keys, where a later source
  overwrites an earlier one. \<open>LUndefined\<close> is a property that is present and holds
  \<^verbatim>\<open>undefined\<close>, which \<^verbatim>\<open>buildLayers\<close> writes for a group the category lacks;
  \<open>LInherited\<close> is a member of the prototype, which it writes when that group has the
  name of one.
\<close>

datatype lval = LUndefined | LNum jsnum | LStr string | LRows "datum list" | LInherited

type_synonym layer = "string \<rightharpoonup> lval"

fun lval_of_cell :: "cell \<Rightarrow> lval" where
  "lval_of_cell (CNum n) = LNum n"
| "lval_of_cell (CRows vs) = LRows vs"

section \<open>Scales\<close>

text \<open>
  The scales are those of d3-scale. A band scale is kept as its configuration: the
  domain (\<^verbatim>\<open>domain(_)\<close> keeps the first occurrence of each key), the two ends of the
  range, whether positions are rounded (\<^verbatim>\<open>rangeRound\<close>) and the two paddings, which
  \<^verbatim>\<open>padding(_)\<close> sets together: \<^verbatim>\<open>paddingInner = Math.min(1, paddingOuter = +_)\<close>.
  The alignment keeps its default, one half.
\<close>

record band =
  b_domain :: "string list"
  b_range :: "jsnum \<times> jsnum"
  b_round :: bool
  b_paddingInner :: real
  b_paddingOuter :: real

definition scaleBand :: band where
  "scaleBand = \<lparr>b_domain = [], b_range = (Fin 0, Fin 1), b_round = False,
                 b_paddingInner = 0, b_paddingOuter = 0\<rparr>"

definition ordinal_domain :: "string list \<Rightarrow> string list" where
  "ordinal_domain xs = foldl (\<lambda>dom d. if d \<in> set dom then dom else dom @ [d]) [] xs"

definition band_domain :: "string list \<Rightarrow> band \<Rightarrow> band" where
  "band_domain xs s = s\<lparr>b_domain := ordinal_domain xs\<rparr>"

definition band_rangeRound :: "jsnum \<times> jsnum \<Rightarrow> band \<Rightarrow> band" where
  "band_rangeRound r s = s\<lparr>b_range := r, b_round := True\<rparr>"

definition band_padding :: "real \<Rightarrow> band \<Rightarrow> band" where
  "band_padding p s = s\<lparr>b_paddingInner := min 1 p, b_paddingOuter := p\<rparr>"

text \<open>The chain \<^verbatim>\<open>scaleBand().domain(d).rangeRound(r).padding(p)\<close>.\<close>

definition bandOf :: "string list \<Rightarrow> jsnum \<times> jsnum \<Rightarrow> real \<Rightarrow> band" where
  "bandOf d r p = band_padding p (band_rangeRound r (band_domain d scaleBand))"

text \<open>
  \<^verbatim>\<open>rescale()\<close> of the band scale: the position of every key of the domain, and the
  bandwidth. A range end that is \<^verbatim>\<open>NaN\<close> makes all of them \<^verbatim>\<open>NaN\<close>. The
  arithmetic is that of the reals. d3 divides, multiplies and subtracts doubles, and
  where the exact step or start lies within a rounding error of an integer or of a half
  its \<^verbatim>\<open>Math.floor\<close> and \<^verbatim>\<open>Math.round\<close> can come out one apart from the ones here
  (range 33, one key and padding 0.1: the step is 29 in doubles and 30 here). The
  general statements below hold for every band scale and do not rest on these numbers.
  The scales that are evaluated below, all with padding one tenth, come out the same in
  doubles: positions 41 and 450 and bandwidth 368 for two keys over the range 0 to 860,
  18, 193 and 158 over 0 to 368, 210, 20 and 171 over 400 to 0; position 79 and
  bandwidth 703 for one key over 0 to 860, 64 and 575 over 0 to 703.
\<close>

definition band_rescale :: "band \<Rightarrow> jsnum list \<times> jsnum" where
  "band_rescale s =
     (case b_range s of
        (Fin r0, Fin r1) \<Rightarrow>
          (let n = real (length (b_domain s));
               reverse = (r1 < r0);
               start = (if reverse then r1 else r0);
               stop = (if reverse then r0 else r1);
               step0 = (stop - start) / max 1 (n - b_paddingInner s + b_paddingOuter s * 2);
               step = (if b_round s then of_int \<lfloor>step0\<rfloor> else step0);
               start1 = start + (stop - start - step * (n - b_paddingInner s)) * (1 / 2);
               bandwidth0 = step * (1 - b_paddingInner s);
               start2 = (if b_round s then Math_round start1 else start1);
               bandwidth = (if b_round s then Math_round bandwidth0 else bandwidth0);
               values = map (\<lambda>i. Fin (start2 + step * real i)) [0 ..< length (b_domain s)]
           in (if reverse then rev values else values, Fin bandwidth))
      | _ \<Rightarrow> (replicate (length (b_domain s)) NaN, NaN))"

definition band_bandwidth :: "band \<Rightarrow> jsnum" where
  "band_bandwidth s = snd (band_rescale s)"

text \<open>Calling the scale: \<open>None\<close> (\<^verbatim>\<open>undefined\<close>) for a key outside the domain.\<close>

definition band_apply :: "band \<Rightarrow> string \<Rightarrow> jsnum option" where
  "band_apply s d =
     (case indexOf (b_domain s) d of
        None \<Rightarrow> None
      | Some i \<Rightarrow> Some (fst (band_rescale s) ! (i mod length (fst (band_rescale s)))))"

text \<open>\<^verbatim>\<open>undefined\<close> in arithmetic and in a comparison is \<^verbatim>\<open>NaN\<close>.\<close>

fun num :: "jsnum option \<Rightarrow> jsnum" where
  "num None = NaN"
| "num (Some n) = n"

text \<open>
  A linear scale is kept as its configuration only (no claim calls one): domain, range,
  \<^verbatim>\<open>rangeRound\<close> and whether \<^verbatim>\<open>nice()\<close> was applied.
\<close>

record linear =
  l_domain :: "jsnum \<times> jsnum"
  l_range :: "jsnum \<times> jsnum"
  l_round :: bool
  l_nice :: bool

datatype scale = Band band | Linear linear

text \<open>
  The ordinal (colour) scale: calling it with a key outside the domain appends the key
  (the implicit domain), and the colour is \<^verbatim>\<open>range[(i - 1) % range.length]\<close>,
  \<^verbatim>\<open>undefined\<close> for an empty range.
\<close>

record ordinal =
  o_domain :: "string list"
  o_range :: "string list"

definition ordinal_call :: "string \<Rightarrow> ordinal \<Rightarrow> string option \<times> ordinal" where
  "ordinal_call d s =
     (let (i, s') = (case indexOf (o_domain s) d of
                       Some j \<Rightarrow> (j + 1, s)
                     | None \<Rightarrow> (length (o_domain s) + 1, s\<lparr>o_domain := o_domain s @ [d]\<rparr>))
      in (if o_range s = [] then None
          else Some (o_range s ! ((i - 1) mod length (o_range s))), s'))"

section \<open>The chart\<close>

text \<open>
  The closure variables of \<^verbatim>\<open>module()\<close> that the pipeline reads and writes (the three
  aliases \<^verbatim>\<open>nameLabel\<close>, \<^verbatim>\<open>valueLabel\<close> and \<^verbatim>\<open>groupLabel\<close> together, as
  \<open>aliases\<close>). A scale
  that no render has built yet is \<open>None\<close>. \<^verbatim>\<open>xScale\<close> and \<^verbatim>\<open>yScale\<close> hold a band or
  a linear scale, depending on the orientation of the render that built them. A margin
  is an object; a colour map sends a group key to a colour or to \<^verbatim>\<open>undefined\<close>.
\<close>

type_synonym colormap = "string \<rightharpoonup> string option"

record chart =
  margin :: "string \<rightharpoonup> jsnum"
  width :: real
  height :: real
  isLoading :: bool
  xScale :: "scale option"
  xScale2 :: "band option"
  yScale :: "scale option"
  yScale2 :: "band option"
  colorSchema :: "string list"
  nameToColorMap :: "colormap option"
  colorScale :: "ordinal option"
  layers :: "layer list"
  isHorizontal :: bool
  chartWidth :: jsnum
  chartHeight :: jsnum
  data :: "datum list"
  groups :: "string list"
  transformedData :: "layer list"
  animationDelayStep :: real
  animationDelays :: "real list"
  betweenBarsPadding :: real
  betweenGroupsPadding :: real
  aliases :: labels

text \<open>
  The initial values of \<^verbatim>\<open>module()\<close>. The default colour schema is a table of the
  colour helper, which is not part of this file: it is a parameter.
\<close>

definition module :: "string list \<Rightarrow> chart" where
  "module britecharts =
     \<lparr>margin = [''top'' \<mapsto> Fin 40, ''right'' \<mapsto> Fin 30, ''bottom'' \<mapsto> Fin 60, ''left'' \<mapsto> Fin 70],
      width = 960, height = 500, isLoading = False,
      xScale = None, xScale2 = None, yScale = None, yScale2 = None,
      colorSchema = britecharts, nameToColorMap = None, colorScale = None,
      layers = [], isHorizontal = False, chartWidth = NaN, chartHeight = NaN,
      data = [], groups = [], transformedData = [],
      animationDelayStep = 20, animationDelays = [],
      betweenBarsPadding = 1 / 10, betweenGroupsPadding = 1 / 10,
      aliases = \<lparr>nameLabel = ''name'', valueLabel = ''value'', groupLabel = ''group''\<rparr>\<rparr>"

text \<open>Reading a side of a margin; a missing side is \<^verbatim>\<open>undefined\<close>, \<^verbatim>\<open>NaN\<close> in arithmetic.\<close>

definition side :: "(string \<rightharpoonup> jsnum) \<Rightarrow> string \<Rightarrow> jsnum" where
  "side m k = num (m k)"

section \<open>Grouping engine\<close>

text \<open>
  \<^verbatim>\<open>prepareData(data)\<close>: the groups in first-seen order, and one object per bucket of
  the nest: \<^verbatim>\<open>Object.assign({}, {total: sum(permute(ret, groups)), key}, ret)\<close>.
\<close>

definition transform :: "labels \<Rightarrow> string list \<Rightarrow> string \<times> datum list \<Rightarrow> layer" where
  "transform l gs entry =
     (let ret = rollup l (snd entry)
      in [''total'' \<mapsto> LNum (d3_sum (permute ret gs)), ''key'' \<mapsto> LStr (fst entry)]
         ++ (map_option lval_of_cell \<circ> ret))"

definition prepareData :: "datum list \<Rightarrow> chart \<Rightarrow> chart" where
  "prepareData dat st =
     (let gs = uniq (map getGroup dat)
      in st\<lparr>groups := gs,
            transformedData := map (transform (aliases st) gs) (nest_entries dat)\<rparr>)"

text \<open>
  \<^verbatim>\<open>buildLayers()\<close>: \<^verbatim>\<open>ret[key] = item[key]\<close> for every group, so each layer gets
  a property for every group, \<^verbatim>\<open>undefined\<close> where the category has none; then
  \<^verbatim>\<open>Object.assign({}, item, ret)\<close>.
\<close>

definition buildLayer :: "string list \<Rightarrow> layer \<Rightarrow> layer" where
  "buildLayer gs item =
     item ++ foldl (\<lambda>ret key.
                      js_write ret key
                        (case js_read item key of
                           Own v \<Rightarrow> v | Inherited \<Rightarrow> LInherited | Missing \<Rightarrow> LUndefined))
                   Map.empty gs"

definition buildLayers :: "chart \<Rightarrow> chart" where
  "buildLayers st = st\<lparr>layers := map (buildLayer (groups st)) (transformedData st)\<rparr>"

section \<open>Scale builder\<close>

text \<open>\<^verbatim>\<open>getYMax()\<close>: a \<^verbatim>\<open>Set\<close> holds each number once (\<^verbatim>\<open>NaN\<close> too).\<close>

definition getYMax :: "chart \<Rightarrow> jsnum option" where
  "getYMax st =
     (let uniqueDataPoints = set (map getValue (data st));
          isAllZero = (card uniqueDataPoints = 1 \<and> Fin 0 \<in> uniqueDataPoints)
      in if isAllZero then Some (Fin 1) else d3_max (map getValue (data st)))"

text \<open>
  The colour map derived from the data: the colour scale gets the names as its domain,
  and for every name in turn, every record of that name stores the colour of its group:
  \<^verbatim>\<open>memo[group] = colorScale(group)\<close>.
\<close>

definition colorStep :: "string \<Rightarrow> colormap \<times> ordinal \<Rightarrow> datum \<Rightarrow> colormap \<times> ordinal" where
  "colorStep item acc d =
     (if getName d = item
      then (let (c, cs) = ordinal_call (getGroup d) (snd acc)
            in (js_write (fst acc) (getGroup d) c, cs))
      else acc)"

definition deriveColorMap :: "datum list \<Rightarrow> ordinal \<Rightarrow> colormap \<times> ordinal" where
  "deriveColorMap dat cs =
     (let cs1 = cs\<lparr>o_domain := ordinal_domain (map getName dat)\<rparr>
      in foldl (\<lambda>acc item. foldl (colorStep item) acc dat) (Map.empty, cs1) (o_domain cs1))"

text \<open>
  \<^verbatim>\<open>buildScales()\<close>. The last statement is
  \<^verbatim>\<open>nameToColorMap = nameToColorMap || (derived map)\<close>: an object is truthy, so the
  right operand is evaluated only when the variable holds \<^verbatim>\<open>null\<close>.
\<close>

definition buildScales :: "chart \<Rightarrow> chart" where
  "buildScales st =
     (let yMax = getYMax st;
          st1 =
            (if isHorizontal st then
               (let ys = bandOf (map getName (data st)) (chartHeight st, Fin 0)
                                (betweenGroupsPadding st);
                    ys2 = bandOf (map getGroup (data st)) (band_bandwidth ys, Fin 0)
                                 (betweenBarsPadding st)
                in st\<lparr>xScale := Some (Linear \<lparr>l_domain = (Fin 0, num yMax),
                                               l_range = (Fin 0, js_sub (chartWidth st) (Fin 1)),
                                               l_round = True, l_nice = False\<rparr>),
                       yScale := Some (Band ys),
                       yScale2 := Some ys2\<rparr>)
             else
               (let xs = bandOf (map getName (data st)) (Fin 0, chartWidth st)
                                (betweenGroupsPadding st);
                    xs2 = bandOf (map getGroup (data st)) (Fin 0, band_bandwidth xs)
                                 (betweenGroupsPadding st)
                in st\<lparr>xScale := Some (Band xs),
                       xScale2 := Some xs2,
                       yScale := Some (Linear \<lparr>l_domain = (Fin 0, num yMax),
                                               l_range = (chartHeight st, Fin 0),
                                               l_round = True, l_nice = True\<rparr>)\<rparr>));
          cs = \<lparr>o_domain = ordinal_domain (map getGroup (data st)), o_range = colorSchema st\<rparr>
      in case nameToColorMap st1 of
           Some m \<Rightarrow> st1\<lparr>colorScale := Some cs\<rparr>
         | None \<Rightarrow> (let (m, cs') = deriveColorMap (data st) cs
                    in st1\<lparr>colorScale := Some cs', nameToColorMap := Some m\<rparr>))"

section \<open>Animation scheduler and render\<close>

text \<open>The part of \<^verbatim>\<open>drawGroupedBar()\<close> that is not drawing: the delay table.\<close>

definition drawGroupedBar :: "chart \<Rightarrow> chart" where
  "drawGroupedBar st =
     st\<lparr>animationDelays :=
          d3_range (animationDelayStep st)
                   ((real (length (layers st)) + 1) * animationDelayStep st)
                   (animationDelayStep st)\<rparr>"

text \<open>
  \<^verbatim>\<open>exports(_selection)\<close> for one container, with the drawing left out. Its argument
  is the data as \<^verbatim>\<open>cleanData\<close> returns it.
\<close>

definition exports :: "datum list \<Rightarrow> chart \<Rightarrow> chart" where
  "exports cleaned st =
     (let st1 = st\<lparr>chartWidth := js_sub (js_sub (Fin (width st)) (side (margin st) ''left''))
                                        (side (margin st) ''right''),
                    chartHeight := js_sub (js_sub (Fin (height st)) (side (margin st) ''top''))
                                         (side (margin st) ''bottom''),
                    data := cleaned\<rparr>
      in if isLoading st1 then st1
         else drawGroupedBar (buildLayers (buildScales (prepareData (data st1) st1))))"

text \<open>
  The table is read where the bars are drawn, when the chart is animated:
  \<^verbatim>\<open>.delay((_, i) => animationDelays[i])\<close>, on the bars of every layer, with \<open>i\<close>
  the position of the bar in its layer. A read past the end gives \<^verbatim>\<open>undefined\<close>.
\<close>

definition delayOf :: "chart \<Rightarrow> nat \<Rightarrow> real option" where
  "delayOf st i =
     (if i < length (animationDelays st) then Some (animationDelays st ! i) else None)"

section \<open>Hit-tester\<close>

text \<open>
  A hit-tester writes into every record it finds, one per layer at most:
  \<^verbatim>\<open>found.values = data.values; found.key = found.name\<close>, and returns the first of
  them. The writes add two properties to the row and leave its \<^verbatim>\<open>name\<close>,
  \<^verbatim>\<open>group\<close> and \<^verbatim>\<open>value\<close> as they are; a \<open>hit\<close> is a record found together with
  the two properties written into it, and \<^verbatim>\<open>nearest\<close>, the list that \<open>collect\<close>
  builds, holds every row written to with what was written. Reading \<^verbatim>\<open>values\<close> of a
  layer and calling \<^verbatim>\<open>find\<close> on it throws a \<^verbatim>\<open>TypeError\<close> unless the property
  holds an array.
\<close>

datatype error = TypeError

record hit =
  found :: datum
  found_values :: "datum list"
  found_key :: string

definition layer_values :: "layer \<Rightarrow> error + datum list" where
  "layer_values L = (case L ''values'' of Some (LRows vs) \<Rightarrow> Inr vs | _ \<Rightarrow> Inl TypeError)"

text \<open>The loop over the layers, shared by the two hit-testers: it fills \<^verbatim>\<open>nearest\<close>.\<close>

fun collect :: "(datum \<Rightarrow> bool) \<Rightarrow> layer list \<Rightarrow> hit list \<Rightarrow> error + hit list" where
  "collect P [] nearest = Inr nearest"
| "collect P (L # Ls) nearest =
     (case layer_values L of
        Inl e \<Rightarrow> Inl e
      | Inr vs \<Rightarrow>
          (case find P vs of
             None \<Rightarrow> collect P Ls nearest
           | Some f \<Rightarrow>
               collect P Ls
                 (nearest @ [\<lparr>found = f, found_values = vs, found_key = getName f\<rparr>])))"

definition first_or_undefined :: "error + hit list \<Rightarrow> error + hit option" where
  "first_or_undefined r =
     (case r of
        Inl e \<Rightarrow> Inl e
      | Inr nearest \<Rightarrow> Inr (case nearest of [] \<Rightarrow> None | x # _ \<Rightarrow> Some x))"

text \<open>
  \<^verbatim>\<open>getNearestDataPoint(mouseX)\<close>, for a chart rendered vertically: \<^verbatim>\<open>xScale\<close> and
  \<^verbatim>\<open>xScale2\<close> are then band scales. The closure variables it reads are its first
  five arguments. It reads the rows through the aliases:
  \<^verbatim>\<open>xScale(d2[nameLabel]) + xScale2(d2[groupLabel])\<close>. \<^verbatim>\<open>Math.abs\<close> of a comparison
  is truthy when the comparison holds.
\<close>

definition getNearestDataPoint ::
  "labels \<Rightarrow> (string \<rightharpoonup> jsnum) \<Rightarrow> band \<Rightarrow> band \<Rightarrow> layer list \<Rightarrow> real \<Rightarrow> error + hit option" where
  "getNearestDataPoint l mg xS xS2 ls mouseX =
     (let adjustedMouseX = js_sub (Fin mouseX) (side mg ''left'');
          epsilon = band_bandwidth xS2
      in first_or_undefined
           (collect (\<lambda>d2.
               js_ge adjustedMouseX
                 (js_add (num (band_apply xS (getName d2)))
                         (num (band_apply xS2 (atGroupLabel l d2))))
               \<and> js_le (js_sub (js_sub adjustedMouseX (num (band_apply xS2 (atGroupLabel l d2))))
                                (num (band_apply xS (getName d2))))
                        epsilon)
             ls []))"

text \<open>
  \<^verbatim>\<open>getNearestDataPoint2(mouseY)\<close>, for a chart rendered horizontally: \<^verbatim>\<open>yScale\<close>
  is then a band scale. It reads the rows through \<^verbatim>\<open>d2[nameLabel]\<close> only.
\<close>

definition getNearestDataPoint2 ::
  "(string \<rightharpoonup> jsnum) \<Rightarrow> band \<Rightarrow> layer list \<Rightarrow> real \<Rightarrow> error + hit option" where
  "getNearestDataPoint2 mg yS ls mouseY =
     (let adjustedMouseY = js_sub (Fin mouseY) (side mg ''bottom'');
          epsilon = band_bandwidth yS
      in first_or_undefined
           (collect (\<lambda>d2.
               js_ge adjustedMouseY (num (band_apply yS (getName d2)))
               \<and> js_le (js_sub adjustedMouseY (num (band_apply yS (getName d2))))
                        (js_mul epsilon (Fin 2)))
             ls []))"

section \<open>Configuration accessors\<close>

text \<open>
  The setter branch of the accessors (the getter branch returns the variable).
  \<^verbatim>\<open>margin = {...margin, ..._x}\<close>: the properties of the argument are written over
  those of the old margin.
\<close>

definition exports_margin :: "(string \<rightharpoonup> jsnum) \<Rightarrow> chart \<Rightarrow> chart" where
  "exports_margin x st = st\<lparr>margin := margin st ++ x\<rparr>"

definition exports_colorMap :: "colormap option \<Rightarrow> chart \<Rightarrow> chart" where
  "exports_colorMap x st = st\<lparr>nameToColorMap := x\<rparr>"

definition exports_colorSchema :: "string list \<Rightarrow> chart \<Rightarrow> chart" where
  "exports_colorSchema x st = st\<lparr>colorSchema := x\<rparr>"

definition exports_betweenBarsPadding :: "real \<Rightarrow> chart \<Rightarrow> chart" where
  "exports_betweenBarsPadding x st = st\<lparr>betweenBarsPadding := x\<rparr>"

definition exports_betweenGroupsPadding :: "real \<Rightarrow> chart \<Rightarrow> chart" where
  "exports_betweenGroupsPadding x st = st\<lparr>betweenGroupsPadding := x\<rparr>"

definition exports_height :: "real \<Rightarrow> chart \<Rightarrow> chart" where
  "exports_height x st = st\<lparr>height := x\<rparr>"

definition exports_width :: "real \<Rightarrow> chart \<Rightarrow> chart" where
  "exports_width x st = st\<lparr>width := x\<rparr>"

definition exports_isHorizontal :: "bool \<Rightarrow> chart \<Rightarrow> chart" where
  "exports_isHorizontal x st = st\<lparr>isHorizontal := x\<rparr>"

definition exports_isLoading :: "bool \<Rightarrow> chart \<Rightarrow> chart" where
  "exports_isLoading x st = st\<lparr>isLoading := x\<rparr>"

definition exports_nameLabel :: "string \<Rightarrow> chart \<Rightarrow> chart" where
  "exports_nameLabel x st = st\<lparr>aliases := (aliases st)\<lparr>nameLabel := x\<rparr>\<rparr>"

definition exports_groupLabel :: "string \<Rightarrow> chart \<Rightarrow> chart" where
  "exports_groupLabel x st = st\<lparr>aliases := (aliases st)\<lparr>groupLabel := x\<rparr>\<rparr>"

definition exports_valueLabel :: "string \<Rightarrow> chart \<Rightarrow> chart" where
  "exports_valueLabel x st = st\<lparr>aliases := (aliases st)\<lparr>valueLabel := x\<rparr>\<rparr>"

text \<open>What a caller can do to a chart, and a run of such calls.\<close>

datatype call =
    Render "datum list"
  | ColorMap "colormap option"
  | ColorSchema "string list"
  | Margin "string \<rightharpoonup> jsnum"
  | BetweenBarsPadding real
  | BetweenGroupsPadding real
  | Height real
  | Width real
  | IsHorizontal bool
  | IsLoading bool
  | NameLabel string
  | GroupLabel string
  | ValueLabel string

fun perform :: "chart \<Rightarrow> call \<Rightarrow> chart" where
  "perform st (Render d) = exports d st"
| "perform st (ColorMap x) = exports_colorMap x st"
| "perform st (ColorSchema x) = exports_colorSchema x st"
| "perform st (Margin x) = exports_margin x st"
| "perform st (BetweenBarsPadding x) = exports_betweenBarsPadding x st"
| "perform st (BetweenGroupsPadding x) = exports_betweenGroupsPadding x st"
| "perform st (Height x) = exports_height x st"
| "perform st (Width x) = exports_width x st"
| "perform st (IsHorizontal x) = exports_isHorizontal x st"
| "perform st (IsLoading x) = exports_isLoading x st"
| "perform st (NameLabel x) = exports_nameLabel x st"
| "perform st (GroupLabel x) = exports_groupLabel x st"
| "perform st (ValueLabel x) = exports_valueLabel x st"

fun is_ColorMap :: "call \<Rightarrow> bool" where
  "is_ColorMap (ColorMap x) = True"
| "is_ColorMap _ = False"

section \<open>Notions of the specification\<close>

text \<open>
  The words of the specification, as definitions of their own, to compare the code
  with. ``Every distinct key exactly once, in first-seen order'': the first element,
  then the keys of the rest without it.
\<close>

primrec first_seen :: "'a list \<Rightarrow> 'a list" where
  "first_seen [] = []"
| "first_seen (x # xs) = x # filter (\<lambda>y. y \<noteq> x) (first_seen xs)"

text \<open>
  ``That category's per-group value'' is the value of the last record of the category
  and the group (a later record overwrites an earlier one), and there is none when the
  category has no record of the group. \<open>stated_total\<close> is the total as the
  specification states it: the sum, in the language's arithmetic, over the first-seen
  group order, with zero for an absent group. \<open>contribution\<close> is what a group adds to
  the total in the code. \<open>scenario\<close> is the end-to-end dataset of the specification.
\<close>

definition perGroupValue :: "datum list \<Rightarrow> string \<Rightarrow> string \<Rightarrow> jsnum option" where
  "perGroupValue dat k g =
     (case filter (\<lambda>d. getName d = k \<and> getGroup d = g) dat of
        [] \<Rightarrow> None
      | ds \<Rightarrow> Some (getValue (last ds)))"

definition stated_total :: "datum list \<Rightarrow> string \<Rightarrow> jsnum" where
  "stated_total dat k =
     foldl js_add (Fin 0)
       (map (\<lambda>g. case perGroupValue dat k g of None \<Rightarrow> Fin 0 | Some v \<Rightarrow> v)
            (first_seen (map getGroup dat)))"

definition contribution :: "datum list \<Rightarrow> string \<Rightarrow> string \<Rightarrow> real" where
  "contribution dat k g =
     (if g = [] then 0
      else case perGroupValue dat k g of Some (Fin x) \<Rightarrow> x | _ \<Rightarrow> 0)"

definition scenario :: "datum list" where
  "scenario = [\<lparr>getName = ''A'', getGroup = ''X'', getValue = Fin 0\<rparr>,
               \<lparr>getName = ''A'', getGroup = ''Y'', getValue = Fin 0\<rparr>,
               \<lparr>getName = ''B'', getGroup = ''X'', getValue = Fin 10\<rparr>]"

text \<open>
  ``The true maximum observed value'': the greatest of the values that are numbers, and
  none when there is no such value.
\<close>

fun finite_values :: "jsnum list \<Rightarrow> real list" where
  "finite_values [] = []"
| "finite_values (NaN # vs) = finite_values vs"
| "finite_values (Fin x # vs) = x # finite_values vs"

definition true_max :: "jsnum list \<Rightarrow> jsnum option" where
  "true_max vs = (if finite_values vs = [] then None else Some (Fin (Max (set (finite_values vs)))))"

text \<open>
  The hit-tester as the specification words it: the layers are scanned in order, the
  records of a layer in stored order, and the first record that matches wins. A record
  matches when its position is at most the adjusted pointer coordinate and the distance
  between the two is at most the tolerance (nothing matches when one of the three is
  \<^verbatim>\<open>NaN\<close>). In vertical orientation the position is the category position plus the
  group position and the tolerance the group bandwidth; in horizontal orientation the
  position is the category position and the tolerance \<open>c\<close> category bandwidths.
\<close>

fun first_match :: "(datum \<Rightarrow> bool) \<Rightarrow> datum list list \<Rightarrow> hit option" where
  "first_match P [] = None"
| "first_match P (vs # rest) =
     (case find P vs of
        Some d \<Rightarrow> Some \<lparr>found = d, found_values = vs, found_key = getName d\<rparr>
      | None \<Rightarrow> first_match P rest)"

definition within_band :: "jsnum \<Rightarrow> jsnum \<Rightarrow> jsnum \<Rightarrow> bool" where
  "within_band pointer position tolerance =
     (case (pointer, position, tolerance) of
        (Fin p, Fin q, Fin t) \<Rightarrow> q \<le> p \<and> p - q \<le> t
      | _ \<Rightarrow> False)"

definition hit_vertical :: "(string \<rightharpoonup> jsnum) \<Rightarrow> band \<Rightarrow> band \<Rightarrow> real \<Rightarrow> datum \<Rightarrow> bool" where
  "hit_vertical mg xS xS2 mouseX d =
     within_band (js_sub (Fin mouseX) (side mg ''left''))
                 (js_add (num (band_apply xS (getName d))) (num (band_apply xS2 (getGroup d))))
                 (band_bandwidth xS2)"

definition hit_horizontal :: "real \<Rightarrow> (string \<rightharpoonup> jsnum) \<Rightarrow> band \<Rightarrow> real \<Rightarrow> datum \<Rightarrow> bool" where
  "hit_horizontal c mg yS mouseY d =
     within_band (js_sub (Fin mouseY) (side mg ''bottom''))
                 (num (band_apply yS (getName d)))
                 (js_mul (band_bandwidth yS) (Fin c))"

text \<open>The records of each category, the categories in first-seen order.\<close>

definition by_category :: "datum list \<Rightarrow> datum list list" where
  "by_category dat = map (\<lambda>k. filter (\<lambda>d. getName d = k) dat) (first_seen (map getName dat))"

section \<open>Properties\<close>

subsection \<open>Lists: first-seen order\<close>

lemma set_first_seen: "set (first_seen xs) = set xs"
  by (induction xs) auto

lemma distinct_first_seen: "distinct (first_seen xs)"
  by (induction xs) (auto simp: set_first_seen)

lemma first_seen_snoc:
  "first_seen (xs @ [x]) = (if x \<in> set xs then first_seen xs else first_seen xs @ [x])"
  by (induction xs) (auto simp: set_first_seen)

lemma indexOf_None: "indexOf xs e = None \<longleftrightarrow> e \<notin> set xs"
  by (induction xs) auto

lemma indexOf_Some_mem: "indexOf xs e = Some i \<Longrightarrow> e \<in> set xs"
  using indexOf_None [of xs e] by auto

lemma indexOf_append:
  "indexOf (xs @ ys) e =
     (case indexOf xs e of Some i \<Rightarrow> Some i
      | None \<Rightarrow> map_option (\<lambda>j. length xs + j) (indexOf ys e))"
proof (induction xs)
  case Nil
  show ?case by (cases "indexOf ys e") simp_all
next
  case (Cons x xs)
  then show ?case by (cases "indexOf ys e") (auto split: option.splits)
qed

lemma indexOf_lt: "indexOf xs e = Some i \<Longrightarrow> i < length xs"
  by (induction xs arbitrary: i) (auto split: if_splits)

lemma uniq_aux:
  "map fst (filter (\<lambda>(e, p). indexOf (pre @ xs) e = Some p)
                   (zip xs [length pre ..< length pre + length xs]))
   = filter (\<lambda>e. e \<notin> set pre) (first_seen xs)"
proof (induction xs arbitrary: pre)
  case Nil
  show ?case by simp
next
  case (Cons x xs)
  have up: "[length pre ..< length pre + length (x # xs)]
            = length pre # [length (pre @ [x]) ..< length (pre @ [x]) + length xs]"
    using upt_conv_Cons [of "length pre" "length pre + Suc (length xs)"] by simp
  have hd: "indexOf (pre @ x # xs) x = Some (length pre) \<longleftrightarrow> x \<notin> set pre"
  proof (cases "indexOf pre x")
    case None
    then show ?thesis by (simp add: indexOf_append indexOf_None [symmetric])
  next
    case (Some i)
    then have "i < length pre" "x \<in> set pre"
      by (auto dest: indexOf_lt indexOf_Some_mem)
    with Some show ?thesis by (simp add: indexOf_append)
  qed
  have tl: "map fst (filter (\<lambda>(e, p). indexOf (pre @ x # xs) e = Some p)
                   (zip xs [length (pre @ [x]) ..< length (pre @ [x]) + length xs]))
            = filter (\<lambda>e. e \<notin> set (pre @ [x])) (first_seen xs)"
    using Cons.IH [of "pre @ [x]"] by simp
  have flt: "filter (\<lambda>e. e \<notin> set pre) (filter (\<lambda>y. y \<noteq> x) (first_seen xs))
             = filter (\<lambda>e. e \<notin> set (pre @ [x])) (first_seen xs)"
    by (auto intro: filter_cong)
  show ?case
    unfolding up using hd tl flt by (simp del: upt_Suc)
qed

lemma uniq_first_seen: "uniq xs = first_seen xs"
  using uniq_aux [of "[]" xs] by (simp add: uniq_def)

lemma ordinal_domain_first_seen: "ordinal_domain xs = first_seen xs"
proof -
  have "foldl (\<lambda>dom d. if d \<in> set dom then dom else dom @ [d]) [] xs = first_seen xs"
  proof (induction xs rule: rev_induct)
    case Nil show ?case by simp
  next
    case (snoc x xs) then show ?case by (simp add: first_seen_snoc set_first_seen)
  qed
  then show ?thesis by (simp add: ordinal_domain_def)
qed

lemma nest_add_buckets:
  "distinct ks \<Longrightarrow>
   nest_add d (map (\<lambda>k. (k, f k)) ks) =
     (if getName d \<in> set ks
      then map (\<lambda>k. (k, if k = getName d then f k @ [d] else f k)) ks
      else map (\<lambda>k. (k, f k)) ks @ [(getName d, [d])])"
  by (induction ks) auto

lemma nest_entries_buckets:
  "nest_entries dat =
     map (\<lambda>k. (k, filter (\<lambda>d. getName d = k) dat)) (first_seen (map getName dat))"
proof (induction dat rule: rev_induct)
  case Nil
  show ?case by (simp add: nest_entries_def)
next
  case (snoc d ds)
  have step: "nest_entries (ds @ [d]) = nest_add d (nest_entries ds)"
    by (simp add: nest_entries_def)
  have nomatch: "filter (\<lambda>e. getName e = getName d) ds = []" if "getName d \<notin> getName ` set ds"
    using that by (induction ds) auto
  show ?case
    unfolding step snoc.IH
    by (subst nest_add_buckets)
       (auto simp: distinct_first_seen set_first_seen first_seen_snoc nomatch)
qed


subsection \<open>Grouping engine\<close>

lemma rollup_fold:
  "foldl (\<lambda>ret entry. if f entry \<noteq> [] then js_write ret (f entry) (CNum (getValue entry)) else ret)
         m vs g =
     (case filter (\<lambda>e. f e = g) vs of
        [] \<Rightarrow> m g
      | ds \<Rightarrow> if g = [] \<or> g = ''__proto__'' then m g else Some (CNum (getValue (last ds))))"
proof (induction vs rule: rev_induct)
  case Nil
  show ?case by simp
next
  case (snoc e vs)
  then show ?case by (auto simp: js_write_def split: list.splits)
qed

lemma rollup_values: "rollup l vs ''values'' = Some (CRows vs)"
  by (simp add: rollup_def)

lemma atGroupLabel_canonical: "groupLabel l \<noteq> ''name'' \<Longrightarrow> atGroupLabel l = getGroup"
  by (rule ext) (simp add: atGroupLabel_def)

lemma rollup_group:
  "groupLabel l \<noteq> ''name'' \<Longrightarrow> g \<noteq> ''values'' \<Longrightarrow>
   rollup l (filter (\<lambda>d. getName d = k) dat) g =
     (if g = [] \<or> g = ''__proto__'' then None else map_option CNum (perGroupValue dat k g))"
proof -
  assume l: "groupLabel l \<noteq> ''name''" and g: "g \<noteq> ''values''"
  from l have a: "atGroupLabel l = getGroup"
    by (rule atGroupLabel_canonical)
  from g show ?thesis
    unfolding rollup_def a
    by (simp add: rollup_fold perGroupValue_def split: list.splits)
qed

lemma d3_sum_fold:
  "foldl (\<lambda>s v. case cell_number v of NaN \<Rightarrow> s | Fin x \<Rightarrow> if x \<noteq> 0 then s + x else s) a cs
   = a + sum_list (map (\<lambda>c. case cell_number c of NaN \<Rightarrow> 0 | Fin x \<Rightarrow> x) cs)"
  by (induction cs arbitrary: a) (auto split: jsnum.splits)

lemma d3_sum_sum_list:
  "d3_sum cs = Fin (sum_list (map (\<lambda>c. case cell_number c of NaN \<Rightarrow> 0 | Fin x \<Rightarrow> x) cs))"
  by (simp add: d3_sum_def d3_sum_fold)

lemma transform_total:
  "transform l gs (k, vs) ''total'' =
     (case rollup l vs ''total'' of
        None \<Rightarrow> Some (LNum (d3_sum (permute (rollup l vs) gs)))
      | Some c \<Rightarrow> Some (lval_of_cell c))"
  by (simp add: transform_def Let_def map_add_def split: option.splits)

lemma transform_key:
  "transform l gs (k, vs) ''key'' =
     (case rollup l vs ''key'' of None \<Rightarrow> Some (LStr k) | Some c \<Rightarrow> Some (lval_of_cell c))"
  by (simp add: transform_def Let_def map_add_def split: option.splits)

lemma transform_values: "transform l gs (k, vs) ''values'' = Some (LRows vs)"
  by (simp add: transform_def Let_def map_add_def rollup_values)

lemma perGroupValue_absent:
  "g \<notin> getGroup ` set dat \<Longrightarrow> perGroupValue dat k g = None"
proof -
  assume "g \<notin> getGroup ` set dat"
  then have "filter (\<lambda>d. getName d = k \<and> getGroup d = g) dat = []"
    by (induction dat) auto
  then show ?thesis by (simp add: perGroupValue_def)
qed

lemma transformedData_prepareData:
  "transformedData (prepareData dat st) =
     map (\<lambda>k. transform (aliases st) (first_seen (map getGroup dat))
                 (k, filter (\<lambda>d. getName d = k) dat))
         (first_seen (map getName dat))"
  by (simp add: prepareData_def Let_def nest_entries_buckets uniq_first_seen comp_def)

lemma groups_prepareData: "groups (prepareData dat st) = first_seen (map getGroup dat)"
  by (simp add: prepareData_def Let_def uniq_first_seen)

lemma cell_contribution:
  assumes "groupLabel l \<noteq> ''name''" and "g \<noteq> ''values''" and "g \<noteq> ''__proto__''"
  shows "(case cell_number (js_read (rollup l (filter (\<lambda>d. getName d = k) dat)) g) of
            NaN \<Rightarrow> 0 | Fin x \<Rightarrow> x)
         = contribution dat k g"
  using assms
  by (simp add: js_read_def rollup_group contribution_def split: option.splits jsnum.splits)

lemma layer_totals:
  assumes "groupLabel (aliases st) \<noteq> ''name''"
    and "''total'' \<notin> getGroup ` set dat"
    and "''values'' \<notin> getGroup ` set dat"
    and "''__proto__'' \<notin> getGroup ` set dat"
  shows "map (\<lambda>L. L ''total'') (transformedData (prepareData dat st)) =
           map (\<lambda>k. Some (LNum (Fin (\<Sum>g\<leftarrow>first_seen (map getGroup dat). contribution dat k g))))
               (first_seen (map getName dat))"
proof -
  let ?gs = "first_seen (map getGroup dat)"
  let ?l = "aliases st"
  have nototal: "rollup ?l (filter (\<lambda>d. getName d = k) dat) ''total'' = None" for k
    using assms(1,2) by (simp add: rollup_group perGroupValue_absent)
  have each: "(case cell_number (js_read (rollup ?l (filter (\<lambda>d. getName d = k) dat)) g) of
                 NaN \<Rightarrow> 0 | Fin x \<Rightarrow> x)
              = contribution dat k g" if "g \<in> set ?gs" for k g
  proof -
    from that have "g \<in> getGroup ` set dat" by (simp add: set_first_seen)
    with assms(3,4) have "g \<noteq> ''values''" and "g \<noteq> ''__proto__''" by blast+
    with assms(1) show ?thesis by (rule cell_contribution)
  qed
  have sum: "d3_sum (permute (rollup ?l (filter (\<lambda>d. getName d = k) dat)) ?gs)
             = Fin (\<Sum>g\<leftarrow>?gs. contribution dat k g)" for k
    using each [of _ k]
    by (simp add: d3_sum_sum_list permute_def comp_def cong: map_cong)
  show ?thesis
    by (simp add: transformedData_prepareData transform_total nototal sum comp_def)
qed

subsection \<open>The store of rows\<close>





subsection \<open>Data normalizer\<close>

text \<open>
  What \<^verbatim>\<open>cleanData\<close> leaves behind: the property named by \<^verbatim>\<open>nameLabel\<close> and the
  property \<^verbatim>\<open>name\<close> hold the same value, and so do the property named by
  \<^verbatim>\<open>groupLabel\<close> and \<^verbatim>\<open>group\<close>, unless the group alias is \<^verbatim>\<open>name\<close> itself.
  This is how the later stages read a row through the aliases.
\<close>

lemma js_get_upd:
  "js_get (d(k \<mapsto> v)) k' = (if k' = k then v else js_get d k')"
  by (simp add: js_get_def js_read_def)


lemma cleanRecord_nameLabel:
  "js_get (cleanRecord l s2n d) (nameLabel l) = js_get (cleanRecord l s2n d) ''name''"
  by (simp add: cleanRecord_def Let_def js_get_upd)

lemma cleanRecord_groupLabel:
  "js_get (cleanRecord l s2n d) (groupLabel l) =
     (if groupLabel l = ''name'' then js_get (cleanRecord l s2n d) ''name''
      else js_get (cleanRecord l s2n d) ''group'')"
  by (simp add: cleanRecord_def Let_def js_get_upd)




subsection \<open>Margin accessor\<close>

text \<open>
  C10. The margin setter merges: a side that the argument does not have keeps its value,
  a side that it has takes the argument's value, and nothing else of the chart changes
  (putting the old margin back gives the old chart).
\<close>

theorem exports_margin_keeps_missing_sides:
  "(k \<notin> dom x \<longrightarrow> margin (exports_margin x st) k = margin st k)
   \<and> (k \<in> dom x \<longrightarrow> margin (exports_margin x st) k = x k)
   \<and> (exports_margin x st)\<lparr>margin := margin st\<rparr> = st"
  by (auto simp: exports_margin_def map_add_def split: option.splits)

theorem exports_margin_keeps_missing_sides_witness:
  "''left'' \<notin> dom [''top'' \<mapsto> Fin 10]
   \<and> margin (exports_margin [''top'' \<mapsto> Fin 10] (module [])) ''left'' = Some (Fin 70)
   \<and> ''top'' \<in> dom [''top'' \<mapsto> Fin 10]
   \<and> margin (exports_margin [''top'' \<mapsto> Fin 10] (module [])) ''top'' = Some (Fin 10)
   \<and> margin (exports_margin [''top'' \<mapsto> Fin 10] (module [])) ''right'' = Some (Fin 30)
   \<and> margin (exports_margin [''top'' \<mapsto> Fin 10] (module [])) ''bottom'' = Some (Fin 60)"
  using exports_margin_keeps_missing_sides [of "''left''" "[''top'' \<mapsto> Fin 10]" "module []"]
        exports_margin_keeps_missing_sides [of "''top''" "[''top'' \<mapsto> Fin 10]" "module []"]
        exports_margin_keeps_missing_sides [of "''right''" "[''top'' \<mapsto> Fin 10]" "module []"]
        exports_margin_keeps_missing_sides [of "''bottom''" "[''top'' \<mapsto> Fin 10]" "module []"]
  by (simp add: module_def)


subsection \<open>Layer totals\<close>

text \<open>
  C1 (as amended). Provided the group alias is not \<^verbatim>\<open>name\<close> and no group is named
  \<^verbatim>\<open>total\<close>, \<^verbatim>\<open>values\<close> or \<^verbatim>\<open>__proto__\<close>, the \<^verbatim>\<open>total\<close> of the layer of
  every category, in first-seen category order, is the sum over the first-seen group
  order of what each group contributes: the category's per-group value, and zero for a
  group absent from the category, for the empty group key and for a value that is
  \<^verbatim>\<open>NaN\<close>. For the end-to-end dataset the groups are X, Y, the categories A, B, and
  the totals 0 and 10.
\<close>

theorem layer_total_sums_group_order:
  assumes "groupLabel (aliases st) \<noteq> ''name''"
    and "''total'' \<notin> getGroup ` set dat"
    and "''values'' \<notin> getGroup ` set dat"
    and "''__proto__'' \<notin> getGroup ` set dat"
  shows "map (\<lambda>L. L ''total'') (transformedData (prepareData dat st)) =
           map (\<lambda>k. Some (LNum (Fin (\<Sum>g\<leftarrow>first_seen (map getGroup dat). contribution dat k g))))
               (first_seen (map getName dat))
         \<and> groups (prepareData scenario st) = [''X'', ''Y'']
         \<and> map (\<lambda>L. (L ''key'', L ''total'')) (transformedData (prepareData scenario st))
             = [(Some (LStr ''A''), Some (LNum (Fin 0))), (Some (LStr ''B''), Some (LNum (Fin 10)))]"
proof -
  have general: "map (\<lambda>L. L ''total'') (transformedData (prepareData dat st)) =
           map (\<lambda>k. Some (LNum (Fin (\<Sum>g\<leftarrow>first_seen (map getGroup dat). contribution dat k g))))
               (first_seen (map getName dat))"
    using assms by (rule layer_totals)
  have l: "atGroupLabel (aliases st) = getGroup"
    using assms(1) by (rule atGroupLabel_canonical)
  have example: "groups (prepareData scenario st) = [''X'', ''Y'']
         \<and> map (\<lambda>L. (L ''key'', L ''total'')) (transformedData (prepareData scenario st))
             = [(Some (LStr ''A''), Some (LNum (Fin 0))), (Some (LStr ''B''), Some (LNum (Fin 10)))]"
    by (simp add: groups_prepareData transformedData_prepareData scenario_def transform_total
          transform_key rollup_def l js_write_def js_read_def object_prototype_def d3_sum_def
          permute_def)
  from general example show ?thesis by simp
qed

theorem layer_total_sums_group_order_witness:
  "groupLabel (aliases (module [])) \<noteq> ''name''
   \<and> ''total'' \<notin> getGroup ` set scenario \<and> ''values'' \<notin> getGroup ` set scenario
   \<and> ''__proto__'' \<notin> getGroup ` set scenario
   \<and> map (\<lambda>L. L ''total'') (transformedData (prepareData scenario (module [])))
       = [Some (LNum (Fin 0)), Some (LNum (Fin 10))]"
proof -
  have h: "groupLabel (aliases (module [])) \<noteq> ''name''"
    "''total'' \<notin> getGroup ` set scenario" "''values'' \<notin> getGroup ` set scenario"
    "''__proto__'' \<notin> getGroup ` set scenario"
    by (simp_all add: module_def scenario_def)
  from layer_total_sums_group_order [OF h]
  have "map (\<lambda>L. L ''total'') (transformedData (prepareData scenario (module [])))
       = [Some (LNum (Fin 0)), Some (LNum (Fin 10))]"
    by (simp add: scenario_def contribution_def perGroupValue_def)
  with h show ?thesis by blast
qed

text \<open>
  The statement as the specification has it fails where a value is \<^verbatim>\<open>NaN\<close>: the sum
  of \<^verbatim>\<open>NaN\<close> and 5 is \<^verbatim>\<open>NaN\<close>, and the layer's total is 5.
\<close>

theorem layer_total_counterexample:
  "map (\<lambda>L. L ''total'')
     (transformedData
        (prepareData [\<lparr>getName = ''A'', getGroup = ''X'', getValue = NaN\<rparr>,
                      \<lparr>getName = ''A'', getGroup = ''Y'', getValue = Fin 5\<rparr>] (module [])))
     = [Some (LNum (Fin 5))]
   \<and> stated_total [\<lparr>getName = ''A'', getGroup = ''X'', getValue = NaN\<rparr>,
                    \<lparr>getName = ''A'', getGroup = ''Y'', getValue = Fin 5\<rparr>] ''A'' = NaN"
  by (simp add: transformedData_prepareData transform_total rollup_def atGroupLabel_def module_def
        js_write_def js_read_def object_prototype_def d3_sum_def permute_def
        stated_total_def perGroupValue_def)

text \<open>
  What the hypotheses leave out. A group named \<^verbatim>\<open>total\<close> overwrites the sum (the
  third source of \<^verbatim>\<open>Object.assign\<close> is written last), and one named \<^verbatim>\<open>key\<close> the
  category. The value of a group named \<^verbatim>\<open>__proto__\<close> is stored nowhere, so the total
  misses it. With the group alias \<^verbatim>\<open>name\<close> the values are stored under the category
  and the total, which reads the groups, finds none of them.
\<close>

lemma group_named_total_overwrites:
  "groupLabel (aliases st) \<noteq> ''name'' \<Longrightarrow>
   map (\<lambda>L. (L ''key'', L ''total''))
     (transformedData
        (prepareData [\<lparr>getName = ''A'', getGroup = ''total'', getValue = Fin 5\<rparr>,
                      \<lparr>getName = ''A'', getGroup = ''key'', getValue = Fin 3\<rparr>] st))
     = [(Some (LNum (Fin 3)), Some (LNum (Fin 5)))]"
  by (simp add: transformedData_prepareData transform_total transform_key rollup_def
        atGroupLabel_canonical js_write_def)

lemma group_named_proto_is_lost:
  "groupLabel (aliases st) \<noteq> ''name'' \<Longrightarrow>
   map (\<lambda>L. L ''total'')
     (transformedData
        (prepareData [\<lparr>getName = ''A'', getGroup = ''__proto__'', getValue = Fin 5\<rparr>,
                      \<lparr>getName = ''A'', getGroup = ''X'', getValue = Fin 2\<rparr>] st))
     = [Some (LNum (Fin 2))]"
  by (simp add: transformedData_prepareData transform_total rollup_def atGroupLabel_canonical
        js_write_def js_read_def object_prototype_def d3_sum_def permute_def)

lemma group_alias_name_loses_values:
  "groupLabel (aliases st) = ''name'' \<Longrightarrow>
   map (\<lambda>L. L ''total'')
     (transformedData
        (prepareData [\<lparr>getName = ''A'', getGroup = ''X'', getValue = Fin 1\<rparr>] st))
     = [Some (LNum (Fin 0))]"
  by (simp add: transformedData_prepareData transform_total rollup_def atGroupLabel_def
        js_write_def js_read_def object_prototype_def d3_sum_def permute_def)

subsection \<open>Layers and groups in first-seen order\<close>

text \<open>
  C7. There are as many layers as distinct categories; the layers stand in first-seen
  category order, the layer at each position carrying exactly the records of the
  category at that position, in input order; and the group list holds every group of
  the input exactly once, in first-seen order. \<^verbatim>\<open>buildLayers\<close> keeps the number of
  layers.
\<close>

theorem layers_and_groups_first_seen:
  "length (transformedData (prepareData dat st)) = card (getName ` set dat)
   \<and> map (\<lambda>L. L ''values'') (transformedData (prepareData dat st))
       = map (\<lambda>k. Some (LRows (filter (\<lambda>d. getName d = k) dat))) (first_seen (map getName dat))
   \<and> length (layers (buildLayers (prepareData dat st))) = card (getName ` set dat)
   \<and> groups (prepareData dat st) = first_seen (map getGroup dat)
   \<and> distinct (groups (prepareData dat st))
   \<and> set (groups (prepareData dat st)) = getGroup ` set dat"
proof -
  have card: "length (first_seen (map getName dat)) = card (getName ` set dat)"
    using distinct_card [OF distinct_first_seen, of "map getName dat"]
    by (simp add: set_first_seen)
  have len: "length (transformedData (prepareData dat st)) = card (getName ` set dat)"
    by (simp add: transformedData_prepareData card)
  have vals: "map (\<lambda>L. L ''values'') (transformedData (prepareData dat st))
       = map (\<lambda>k. Some (LRows (filter (\<lambda>d. getName d = k) dat))) (first_seen (map getName dat))"
    by (simp add: transformedData_prepareData transform_values comp_def)
  have lay: "length (layers (buildLayers (prepareData dat st))) = card (getName ` set dat)"
    by (simp add: buildLayers_def len)
  have grp: "groups (prepareData dat st) = first_seen (map getGroup dat)"
    by (rule groups_prepareData)
  from len vals lay grp show ?thesis
    by (simp add: distinct_first_seen set_first_seen)
qed


subsection \<open>Upper bound of the magnitude domain\<close>

lemma finite_values_append: "finite_values (vs @ ws) = finite_values vs @ finite_values ws"
  by (induction vs rule: finite_values.induct) auto

lemma d3_max_snoc:
  "d3_max (vs @ [v]) =
     (case v of NaN \<Rightarrow> d3_max vs
      | Fin x \<Rightarrow> (case d3_max vs of None \<Rightarrow> Some (Fin x) | Some NaN \<Rightarrow> d3_max vs
                   | Some (Fin y) \<Rightarrow> if y < x then Some (Fin x) else d3_max vs))"
  by (simp add: d3_max_def split: jsnum.splits option.splits)

lemma d3_max_true_max: "d3_max vs = true_max vs"
proof (induction vs rule: rev_induct)
  case Nil
  show ?case by (simp add: d3_max_def true_max_def)
next
  case (snoc v vs)
  show ?case
  proof (cases v)
    case NaN
    with snoc show ?thesis
      by (simp add: d3_max_snoc true_max_def finite_values_append)
  next
    case (Fin x)
    show ?thesis
    proof (cases "finite_values vs = []")
      case True
      with snoc Fin show ?thesis
        by (simp add: d3_max_snoc true_max_def finite_values_append)
    next
      case False
      then have m: "Max (set (finite_values vs @ [x])) = max x (Max (set (finite_values vs)))"
        by simp
      from snoc False have d: "d3_max vs = Some (Fin (Max (set (finite_values vs))))"
        by (simp add: true_max_def)
      have t: "true_max (vs @ [Fin x]) = Some (Fin (max x (Max (set (finite_values vs)))))"
        using m by (simp add: true_max_def finite_values_append)
      show ?thesis
        by (cases "Max (set (finite_values vs)) < x") (simp_all add: d3_max_snoc Fin d t max_def)
    qed
  qed
qed

lemma all_zero_set:
  assumes "card (set vs) = 1" and "Fin 0 \<in> set vs"
  shows "set vs = {Fin 0}"
proof -
  from assms(1) obtain z where z: "set vs = {z}" by (rule card_1_singletonE)
  with assms(2) show ?thesis by simp
qed

lemma all_zero_values:
  assumes "set vs = {Fin 0}"
  shows "vs \<noteq> [] \<and> (\<forall>v\<in>set vs. v = Fin 0)"
proof
  from assms show "vs \<noteq> []" by (cases vs) simp_all
  from assms show "\<forall>v\<in>set vs. v = Fin 0" by simp
qed

lemma values_all_zero:
  assumes "vs \<noteq> []" and "\<forall>v\<in>set vs. v = Fin 0"
  shows "set vs = {Fin 0}"
proof -
  from assms(1) obtain v ws where "vs = v # ws" by (cases vs) simp_all
  with assms(2) have "Fin 0 \<in> set vs" by simp
  with assms(2) show ?thesis by blast
qed

lemma all_zero_iff:
  "card (set vs) = 1 \<and> Fin 0 \<in> set vs \<longleftrightarrow> vs \<noteq> [] \<and> (\<forall>v\<in>set vs. v = Fin 0)"
proof
  assume "card (set vs) = 1 \<and> Fin 0 \<in> set vs"
  then have "set vs = {Fin 0}" using all_zero_set by blast
  then show "vs \<noteq> [] \<and> (\<forall>v\<in>set vs. v = Fin 0)" by (rule all_zero_values)
next
  assume "vs \<noteq> [] \<and> (\<forall>v\<in>set vs. v = Fin 0)"
  then have s: "set vs = {Fin 0}" using values_all_zero by blast
  have "card {Fin 0} = 1" by simp
  moreover have "Fin 0 \<in> {Fin 0}" by simp
  ultimately show "card (set vs) = 1 \<and> Fin 0 \<in> set vs" unfolding s by (rule conjI)
qed

lemma getYMax_cases:
  "getYMax st =
     (if data st \<noteq> [] \<and> (\<forall>d\<in>set (data st). getValue d = Fin 0) then Some (Fin 1)
      else true_max (map getValue (data st)))"
proof -
  have "(card (set (map getValue (data st))) = 1 \<and> Fin 0 \<in> set (map getValue (data st)))
        = (data st \<noteq> [] \<and> (\<forall>d\<in>set (data st). getValue d = Fin 0))"
    using all_zero_iff [of "map getValue (data st)"] by simp
  then show ?thesis
    unfolding getYMax_def Let_def d3_max_true_max by (simp only:)
qed

text \<open>
  C2 (as amended). \<^verbatim>\<open>getYMax\<close> is 1 when the dataset is not empty and every value
  is exactly 0; in every other case it is the true maximum of the observed values
  (\<^verbatim>\<open>undefined\<close> when the dataset is empty or all its values are \<^verbatim>\<open>NaN\<close>). Three
  records of value 0 give 1, and the values 0, 5, 3 give 5.
\<close>

theorem getYMax_one_if_all_zero:
  "(data st \<noteq> [] \<and> (\<forall>d\<in>set (data st). getValue d = Fin 0) \<longrightarrow> getYMax st = Some (Fin 1))
   \<and> (\<not> (data st \<noteq> [] \<and> (\<forall>d\<in>set (data st). getValue d = Fin 0))
        \<longrightarrow> getYMax st = true_max (map getValue (data st)))
   \<and> true_max [Fin 0, Fin 5, Fin 3] = Some (Fin 5)"
proof (cases "data st \<noteq> [] \<and> (\<forall>d\<in>set (data st). getValue d = Fin 0)")
  case True
  then show ?thesis using getYMax_cases [of st] by (simp add: true_max_def)
next
  case False
  then have "getYMax st = true_max (map getValue (data st))"
    by (simp only: getYMax_cases if_False)
  moreover have "true_max [Fin 0, Fin 5, Fin 3] = Some (Fin 5)"
    by (simp add: true_max_def)
  ultimately show ?thesis using False by blast
qed

theorem getYMax_one_if_all_zero_witness:
  "(let st = (module [])\<lparr>data := [\<lparr>getName = ''A'', getGroup = ''X'', getValue = Fin 0\<rparr>,
                                   \<lparr>getName = ''A'', getGroup = ''Y'', getValue = Fin 0\<rparr>,
                                   \<lparr>getName = ''B'', getGroup = ''X'', getValue = Fin 0\<rparr>]\<rparr>
    in data st \<noteq> [] \<and> list_all (\<lambda>d. getValue d = Fin 0) (data st) \<and> getYMax st = Some (Fin 1))
   \<and> (let st = (module [])\<lparr>data := [\<lparr>getName = ''A'', getGroup = ''X'', getValue = Fin 0\<rparr>,
                                      \<lparr>getName = ''A'', getGroup = ''Y'', getValue = Fin 5\<rparr>,
                                      \<lparr>getName = ''B'', getGroup = ''X'', getValue = Fin 3\<rparr>]\<rparr>
       in \<not> list_all (\<lambda>d. getValue d = Fin 0) (data st) \<and> getYMax st = Some (Fin 5))"
  using getYMax_one_if_all_zero
          [of "(module [])\<lparr>data := [\<lparr>getName = ''A'', getGroup = ''X'', getValue = Fin 0\<rparr>,
                                   \<lparr>getName = ''A'', getGroup = ''Y'', getValue = Fin 0\<rparr>,
                                   \<lparr>getName = ''B'', getGroup = ''X'', getValue = Fin 0\<rparr>]\<rparr>"]
        getYMax_one_if_all_zero
          [of "(module [])\<lparr>data := [\<lparr>getName = ''A'', getGroup = ''X'', getValue = Fin 0\<rparr>,
                                   \<lparr>getName = ''A'', getGroup = ''Y'', getValue = Fin 5\<rparr>,
                                   \<lparr>getName = ''B'', getGroup = ''X'', getValue = Fin 3\<rparr>]\<rparr>"]
  by (simp add: true_max_def)

text \<open>
  The statement as the specification has it, with ``if and only if'', fails in both
  directions: a dataset whose maximum is 1 has the bound 1 without being all zero, and
  the empty dataset (every one of its values is 0) has no bound at all.
\<close>

theorem getYMax_counterexample:
  "getYMax ((module [])\<lparr>data := [\<lparr>getName = ''A'', getGroup = ''X'', getValue = Fin 1\<rparr>]\<rparr>)
     = Some (Fin 1)
   \<and> getValue \<lparr>getName = ''A'', getGroup = ''X'', getValue = Fin 1\<rparr> \<noteq> Fin 0
   \<and> getYMax ((module [])\<lparr>data := []\<rparr>) = None"
  by (simp add: getYMax_def d3_max_def)

subsection \<open>Animation delays\<close>

lemma d3_range_steps:
  assumes "0 < s"
  shows "d3_range s ((real n + 1) * s) s = map (\<lambda>i. s * (real i + 1)) [0 ..< n]"
proof -
  have q: "((real n + 1) * s - s) / s = real n"
    using assms by (simp add: field_simps)
  have c: "nat (max 0 \<lceil>real n\<rceil>) = n"
    by simp
  have f: "(\<lambda>i. s + real i * s) = (\<lambda>i. s * (real i + 1))"
    by (rule ext) (simp add: algebra_simps)
  from assms have "s \<noteq> 0" by simp
  then show ?thesis
    unfolding d3_range_def Let_def q c f by simp
qed

lemma sorted_steps:
  assumes "0 < s"
  shows "sorted_wrt (<) (map (\<lambda>i. s * (real i + 1)) [0 ..< n])"
  using assms by (simp add: sorted_wrt_iff_nth_less)


lemma buildScales_layers: "layers (buildScales st) = layers st"
  by (simp add: buildScales_def Let_def split: option.split prod.split)

lemma buildScales_animationDelayStep: "animationDelayStep (buildScales st) = animationDelayStep st"
  by (simp add: buildScales_def Let_def split: option.split prod.split)

lemma buildScales_transformedData: "transformedData (buildScales st) = transformedData st"
  by (simp add: buildScales_def Let_def split: option.split prod.split)

lemma buildScales_groups: "groups (buildScales st) = groups st"
  by (simp add: buildScales_def Let_def split: option.split prod.split)

lemma buildScales_margin: "margin (buildScales st) = margin st"
  by (simp add: buildScales_def Let_def split: option.split prod.split)

lemma prepareData_animationDelayStep:
  "animationDelayStep (prepareData dat st) = animationDelayStep st"
  by (simp add: prepareData_def Let_def)

lemma layers_exports:
  "\<not> isLoading st \<Longrightarrow>
   layers (exports dat st) =
     map (buildLayer (first_seen (map getGroup dat))) (transformedData (prepareData dat st))"
  by (simp add: exports_def Let_def drawGroupedBar_def buildLayers_def buildScales_transformedData
        buildScales_groups groups_prepareData transformedData_prepareData)

lemma foldl_js_write:
  "foldl (\<lambda>ret key. js_write ret key (f key)) m gs k
     = (if k \<in> set gs \<and> k \<noteq> ''__proto__'' then Some (f k) else m k)"
  by (induction gs arbitrary: m) (auto simp: js_write_def)

lemma buildLayer_values:
  "item ''values'' = Some (LRows vs) \<Longrightarrow> buildLayer gs item ''values'' = Some (LRows vs)"
  by (simp add: buildLayer_def map_add_def foldl_js_write js_read_def)


lemma layers_values:
  "map (\<lambda>L. L ''values'') (layers (buildLayers (prepareData dat st)))
   = map (\<lambda>vs. Some (LRows vs))
         (by_category dat)"
  by (simp add: buildLayers_def transformedData_prepareData comp_def buildLayer_values
        transform_values by_category_def)

lemma layers_values_exports:
  "\<not> isLoading st \<Longrightarrow>
   map (\<lambda>L. L ''values'') (layers (exports dat st)) = map (\<lambda>vs. Some (LRows vs)) (by_category dat)"
  by (simp add: layers_exports transformedData_prepareData comp_def buildLayer_values
        transform_values by_category_def)

lemma animationDelays_exports:
  "\<not> isLoading st \<Longrightarrow>
   animationDelays (exports dat st) =
     d3_range (animationDelayStep st)
       ((real (card (getName ` set dat)) + 1) * animationDelayStep st) (animationDelayStep st)"
proof -
  assume "\<not> isLoading st"
  moreover have "length (first_seen (map getName dat)) = card (getName ` set dat)"
    using distinct_card [OF distinct_first_seen, of "map getName dat"]
    by (simp add: set_first_seen)
  ultimately show ?thesis
    by (simp add: exports_def Let_def drawGroupedBar_def buildLayers_def
          buildScales_transformedData buildScales_animationDelayStep
          prepareData_animationDelayStep transformedData_prepareData)
qed

text \<open>
  For a positive delay step the delay table starts at one step and grows by one step
  from entry to entry; it has one entry per layer, and after a render on a chart that is
  not loading as many entries as the data has distinct categories.
\<close>

lemma animationDelays_steps:
  assumes "0 < animationDelayStep st"
  shows "animationDelays (drawGroupedBar st)
           = map (\<lambda>i. animationDelayStep st * (real i + 1)) [0 ..< length (layers st)]"
    and "length (animationDelays (drawGroupedBar st)) = length (layers st)"
    and "sorted_wrt (<) (animationDelays (drawGroupedBar st))"
    and "\<not> isLoading st \<Longrightarrow>
           animationDelays (exports dat st)
             = map (\<lambda>i. animationDelayStep st * (real i + 1)) [0 ..< card (getName ` set dat)]"
proof -
  show draw: "animationDelays (drawGroupedBar st)
           = map (\<lambda>i. animationDelayStep st * (real i + 1)) [0 ..< length (layers st)]"
    by (simp add: drawGroupedBar_def d3_range_steps [OF assms])
  from draw show "length (animationDelays (drawGroupedBar st)) = length (layers st)"
    by simp
  from draw sorted_steps [OF assms] show "sorted_wrt (<) (animationDelays (drawGroupedBar st))"
    by simp
  show "animationDelays (exports dat st)
         = map (\<lambda>i. animationDelayStep st * (real i + 1)) [0 ..< card (getName ` set dat)]"
    if "\<not> isLoading st"
    using that by (simp add: animationDelays_exports d3_range_steps [OF assms])
qed

lemma three_by_category:
  "by_category [\<lparr>getName = ''A'', getGroup = ''X'', getValue = Fin 1\<rparr>,
                \<lparr>getName = ''A'', getGroup = ''Y'', getValue = Fin 2\<rparr>,
                \<lparr>getName = ''A'', getGroup = ''Z'', getValue = Fin 3\<rparr>]
   = [[\<lparr>getName = ''A'', getGroup = ''X'', getValue = Fin 1\<rparr>,
       \<lparr>getName = ''A'', getGroup = ''Y'', getValue = Fin 2\<rparr>,
       \<lparr>getName = ''A'', getGroup = ''Z'', getValue = Fin 3\<rparr>]]"
  by (simp add: by_category_def)

text \<open>
  C3 (the code departs from the claim). Three bars in one category, on the default
  chart (delay step 20): the render builds one layer with the three bars and the delay
  table \<^verbatim>\<open>[20]\<close>, one entry for the one layer and not one per bar plus one. The bars
  of an animated chart read the table at their position inside the layer, 0, 1 and 2: the first gets the
  delay 20, the other two read past the end of the table and get \<^verbatim>\<open>undefined\<close>. Three
  bars, each in a category of its own, give the table \<^verbatim>\<open>[20, 40, 60]\<close>, of which every
  bar, at position 0 of its layer, reads the first entry.
\<close>

theorem animationDelays_shorter_than_a_layer:
  "animationDelays
     (exports [\<lparr>getName = ''A'', getGroup = ''X'', getValue = Fin 1\<rparr>,
               \<lparr>getName = ''A'', getGroup = ''Y'', getValue = Fin 2\<rparr>,
               \<lparr>getName = ''A'', getGroup = ''Z'', getValue = Fin 3\<rparr>] (module []))
     = [20]
   \<and> map (\<lambda>L. L ''values'')
       (layers (exports [\<lparr>getName = ''A'', getGroup = ''X'', getValue = Fin 1\<rparr>,
               \<lparr>getName = ''A'', getGroup = ''Y'', getValue = Fin 2\<rparr>,
               \<lparr>getName = ''A'', getGroup = ''Z'', getValue = Fin 3\<rparr>] (module [])))
     = [Some (LRows [\<lparr>getName = ''A'', getGroup = ''X'', getValue = Fin 1\<rparr>,
                     \<lparr>getName = ''A'', getGroup = ''Y'', getValue = Fin 2\<rparr>,
                     \<lparr>getName = ''A'', getGroup = ''Z'', getValue = Fin 3\<rparr>])]
   \<and> map (delayOf
       (exports [\<lparr>getName = ''A'', getGroup = ''X'', getValue = Fin 1\<rparr>,
               \<lparr>getName = ''A'', getGroup = ''Y'', getValue = Fin 2\<rparr>,
               \<lparr>getName = ''A'', getGroup = ''Z'', getValue = Fin 3\<rparr>] (module [])))
       [0, 1, 2]
     = [Some 20, None, None]
   \<and> animationDelays
     (exports [\<lparr>getName = ''A'', getGroup = ''X'', getValue = Fin 1\<rparr>,
               \<lparr>getName = ''B'', getGroup = ''X'', getValue = Fin 2\<rparr>,
               \<lparr>getName = ''C'', getGroup = ''X'', getValue = Fin 3\<rparr>] (module []))
     = [20, 40, 60]"
proof -
  have s: "animationDelayStep (module []) = 20" "\<not> isLoading (module [])"
    by (simp_all add: module_def)
  have u: "[0 ..< 3] = [0, Suc 0, Suc (Suc 0)]"
    by (simp add: upt_rec)
  have one: "animationDelays
     (exports [\<lparr>getName = ''A'', getGroup = ''X'', getValue = Fin 1\<rparr>,
               \<lparr>getName = ''A'', getGroup = ''Y'', getValue = Fin 2\<rparr>,
               \<lparr>getName = ''A'', getGroup = ''Z'', getValue = Fin 3\<rparr>] (module []))
     = [20]"
    by (simp add: animationDelays_exports s d3_range_def)
  have three: "animationDelays
     (exports [\<lparr>getName = ''A'', getGroup = ''X'', getValue = Fin 1\<rparr>,
               \<lparr>getName = ''B'', getGroup = ''X'', getValue = Fin 2\<rparr>,
               \<lparr>getName = ''C'', getGroup = ''X'', getValue = Fin 3\<rparr>] (module []))
     = [20, 40, 60]"
    by (simp add: animationDelays_exports s d3_range_def u)
  from one have reads: "map (delayOf
       (exports [\<lparr>getName = ''A'', getGroup = ''X'', getValue = Fin 1\<rparr>,
               \<lparr>getName = ''A'', getGroup = ''Y'', getValue = Fin 2\<rparr>,
               \<lparr>getName = ''A'', getGroup = ''Z'', getValue = Fin 3\<rparr>] (module [])))
       [0, 1, 2]
     = [Some 20, None, None]"
    by (simp add: delayOf_def)
  note bars = layers_values_exports [OF s(2), of
              "[\<lparr>getName = ''A'', getGroup = ''X'', getValue = Fin 1\<rparr>,
               \<lparr>getName = ''A'', getGroup = ''Y'', getValue = Fin 2\<rparr>,
               \<lparr>getName = ''A'', getGroup = ''Z'', getValue = Fin 3\<rparr>]"]
  from one reads three bars show ?thesis
    unfolding three_by_category by simp
qed


subsection \<open>Hit-tester\<close>

lemma collect_first_match:
  "map (\<lambda>L. L ''values'') ls = map (\<lambda>vs. Some (LRows vs)) vss \<Longrightarrow>
   first_or_undefined (collect P ls acc) =
     Inr (case acc of [] \<Rightarrow> first_match P vss | h # _ \<Rightarrow> Some h)"
proof (induction ls arbitrary: vss acc)
  case Nil
  then show ?case by (simp add: first_or_undefined_def split: list.splits)
next
  case (Cons L ls)
  from Cons.prems obtain vs rest where vss: "vss = vs # rest"
    and vs: "L ''values'' = Some (LRows vs)"
    and rest: "map (\<lambda>L. L ''values'') ls = map (\<lambda>vs. Some (LRows vs)) rest"
    by (cases vss) auto
  show ?case
  proof (cases "find P vs")
    case None
    with vs vss Cons.IH [OF rest, of acc] show ?thesis
      by (cases acc) (simp_all add: layer_values_def)
  next
    case (Some d)
    with vs vss Cons.IH [OF rest, of "acc @ [\<lparr>found = d, found_values = vs, found_key = getName d\<rparr>]"]
    show ?thesis
      by (cases acc) (simp_all add: layer_values_def)
  qed
qed

lemma vertical_predicate:
  "(js_ge adj (js_add a b) \<and> js_le (js_sub (js_sub adj b) a) w) = within_band adj (js_add a b) w"
  by (cases adj; cases a; cases b; cases w) (auto simp: within_band_def)

lemma within_band_NaN: "within_band p NaN t = False"
  by (cases p) (simp_all add: within_band_def)

lemma horizontal_predicate:
  "(js_ge adj a \<and> js_le (js_sub adj a) w) = within_band adj a w"
  by (cases adj; cases a; cases w) (auto simp: within_band_def)

text \<open>
  The vertical hit-tester is a first-match scan too, but its predicate reads the group
  of a record through the alias: under the alias \<^verbatim>\<open>name\<close> it looks up the category
  in the scale of the groups.
\<close>

lemma nearest_vertical_scan:
  "map (\<lambda>L. L ''values'') ls = map (\<lambda>vs. Some (LRows vs)) vss \<Longrightarrow>
   getNearestDataPoint l mg xS xS2 ls mouseX
     = Inr (first_match
              (\<lambda>d. within_band (js_sub (Fin mouseX) (side mg ''left''))
                     (js_add (num (band_apply xS (getName d)))
                             (num (band_apply xS2 (atGroupLabel l d))))
                     (band_bandwidth xS2)) vss)"
  unfolding getNearestDataPoint_def Let_def vertical_predicate
  by (simp add: collect_first_match)

lemma nearest_vertical_canonical:
  assumes "groupLabel l \<noteq> ''name''"
    and "map (\<lambda>L. L ''values'') ls = map (\<lambda>vs. Some (LRows vs)) vss"
  shows "getNearestDataPoint l mg xS xS2 ls mouseX
           = Inr (first_match (hit_vertical mg xS xS2 mouseX) vss)"
  unfolding nearest_vertical_scan [OF assms(2)] atGroupLabel_canonical [OF assms(1)]
  by (simp add: hit_vertical_def [abs_def])

lemma nearest_horizontal_scan:
  "map (\<lambda>L. L ''values'') ls = map (\<lambda>vs. Some (LRows vs)) vss \<Longrightarrow>
   getNearestDataPoint2 mg yS ls mouseY = Inr (first_match (hit_horizontal 2 mg yS mouseY) vss)"
  unfolding getNearestDataPoint2_def Let_def horizontal_predicate
  by (simp add: collect_first_match hit_horizontal_def [abs_def])

lemma first_match_None:
  "list_all (\<lambda>vs. list_all (\<lambda>d. \<not> P d) vs) vss \<Longrightarrow> first_match P vss = None"
proof (induction vss)
  case Nil
  show ?case by simp
next
  case (Cons vs vss)
  then have "find P vs = None"
    by (simp add: find_None_iff list_all_iff)
  with Cons show ?case by simp
qed


lemma buildScales_vertical:
  "\<not> isHorizontal st \<Longrightarrow>
   xScale (buildScales st)
     = Some (Band (bandOf (map getName (data st)) (Fin 0, chartWidth st) (betweenGroupsPadding st)))
   \<and> xScale2 (buildScales st)
     = Some (bandOf (map getGroup (data st))
               (Fin 0, band_bandwidth (bandOf (map getName (data st)) (Fin 0, chartWidth st)
                                              (betweenGroupsPadding st)))
               (betweenGroupsPadding st))"
  by (simp add: buildScales_def Let_def split: option.split prod.split)

lemma buildScales_horizontal:
  "isHorizontal st \<Longrightarrow>
   yScale (buildScales st)
     = Some (Band (bandOf (map getName (data st)) (chartHeight st, Fin 0) (betweenGroupsPadding st)))
   \<and> yScale2 (buildScales st)
     = Some (bandOf (map getGroup (data st))
               (band_bandwidth (bandOf (map getName (data st)) (chartHeight st, Fin 0)
                                       (betweenGroupsPadding st)), Fin 0)
               (betweenBarsPadding st))"
  by (simp add: buildScales_def Let_def split: option.split prod.split)

lemma exports_unfold:
  "\<not> isLoading st \<Longrightarrow>
   exports dat st =
     drawGroupedBar (buildLayers (buildScales (prepareData dat
       (st\<lparr>chartWidth := js_sub (js_sub (Fin (width st)) (side (margin st) ''left''))
                                 (side (margin st) ''right''),
            chartHeight := js_sub (js_sub (Fin (height st)) (side (margin st) ''top''))
                                  (side (margin st) ''bottom''),
            data := dat\<rparr>))))"
  by (simp add: exports_def Let_def)

lemma exports_margin_kept: "margin (exports dat st) = margin st"
  by (simp add: exports_def Let_def drawGroupedBar_def buildLayers_def buildScales_margin prepareData_def)

lemma exports_vertical_scales:
  assumes "\<not> isLoading st" and "\<not> isHorizontal st"
  shows "xScale (exports dat st)
     = Some (Band (bandOf (map getName dat) (Fin 0, chartWidth (exports dat st)) (betweenGroupsPadding st)))"
    and "xScale2 (exports dat st)
     = Some (bandOf (map getGroup dat)
               (Fin 0, band_bandwidth (bandOf (map getName dat) (Fin 0, chartWidth (exports dat st))
                                              (betweenGroupsPadding st)))
               (betweenGroupsPadding st))"
  using assms
  by (simp_all add: exports_unfold drawGroupedBar_def buildLayers_def prepareData_def Let_def
        buildScales_vertical buildScales_def split: option.split prod.split)


lemma first_match_no_record:
  assumes "list_all (\<lambda>d. \<not> P d) dat"
  shows "first_match P (by_category dat) = None"
proof (rule first_match_None)
  from assms show "list_all (list_all (\<lambda>d. \<not> P d)) (by_category dat)"
    by (simp add: by_category_def list_all_iff)
qed

lemma bandOf_domain: "b_domain (bandOf d r p) = first_seen d"
  by (simp add: bandOf_def band_padding_def band_rangeRound_def band_domain_def
        ordinal_domain_first_seen)

lemma scenario_by_category:
  "by_category scenario =
     [[\<lparr>getName = ''A'', getGroup = ''X'', getValue = Fin 0\<rparr>,
       \<lparr>getName = ''A'', getGroup = ''Y'', getValue = Fin 0\<rparr>],
      [\<lparr>getName = ''B'', getGroup = ''X'', getValue = Fin 10\<rparr>]]"
  by (simp add: by_category_def scenario_def)

lemma scenario_xScale:
  "band_apply (bandOf [''A'', ''B''] (Fin 0, Fin 860) (1 / 10)) ''A'' = Some (Fin 41)"
  "band_apply (bandOf [''A'', ''B''] (Fin 0, Fin 860) (1 / 10)) ''B'' = Some (Fin 450)"
  "band_bandwidth (bandOf [''A'', ''B''] (Fin 0, Fin 860) (1 / 10)) = Fin 368"
  by (simp_all add: band_apply_def band_bandwidth_def bandOf_def band_padding_def
        band_rangeRound_def band_domain_def ordinal_domain_def scaleBand_def band_rescale_def
        Let_def Math_round_def)

lemma scenario_xScale2:
  "band_apply (bandOf [''X'', ''Y''] (Fin 0, Fin 368) (1 / 10)) ''X'' = Some (Fin 18)"
  "band_apply (bandOf [''X'', ''Y''] (Fin 0, Fin 368) (1 / 10)) ''Y'' = Some (Fin 193)"
  "band_bandwidth (bandOf [''X'', ''Y''] (Fin 0, Fin 368) (1 / 10)) = Fin 158"
  by (simp_all add: band_apply_def band_bandwidth_def bandOf_def band_padding_def
        band_rangeRound_def band_domain_def ordinal_domain_def scaleBand_def band_rescale_def
        Let_def Math_round_def)

lemma exports_horizontal_scales:
  assumes "\<not> isLoading st" and "isHorizontal st"
  shows "yScale (exports dat st)
     = Some (Band (bandOf (map getName dat) (chartHeight (exports dat st), Fin 0) (betweenGroupsPadding st)))"
  using assms
  by (simp add: exports_unfold drawGroupedBar_def buildLayers_def prepareData_def Let_def
        buildScales_horizontal buildScales_def split: option.split prod.split)

lemma chartWidth_exports:
  "chartWidth (exports dat st)
     = js_sub (js_sub (Fin (width st)) (side (margin st) ''left'')) (side (margin st) ''right'')"
  by (simp add: exports_def Let_def drawGroupedBar_def buildLayers_def prepareData_def
        buildScales_def split: option.split prod.split)

lemma chartHeight_exports:
  "chartHeight (exports dat st)
     = js_sub (js_sub (Fin (height st)) (side (margin st) ''top'')) (side (margin st) ''bottom'')"
  by (simp add: exports_def Let_def drawGroupedBar_def buildLayers_def prepareData_def
        buildScales_def split: option.split prod.split)

lemma scenario_yScale:
  "band_apply (bandOf [''A'', ''B''] (Fin 400, Fin 0) (1 / 10)) ''A'' = Some (Fin 210)"
  "band_apply (bandOf [''A'', ''B''] (Fin 400, Fin 0) (1 / 10)) ''B'' = Some (Fin 20)"
  "band_bandwidth (bandOf [''A'', ''B''] (Fin 400, Fin 0) (1 / 10)) = Fin 171"
  by (simp_all add: band_apply_def band_bandwidth_def bandOf_def band_padding_def
        band_rangeRound_def band_domain_def ordinal_domain_def scaleBand_def band_rescale_def
        Let_def Math_round_def)

lemma scenario_horizontal_yScale:
  "yScale (exports scenario ((module [])\<lparr>isHorizontal := True\<rparr>))
     = Some (Band (bandOf [''A'', ''B''] (Fin 400, Fin 0) (1 / 10)))"
proof -
  have "\<not> isLoading ((module [])\<lparr>isHorizontal := True\<rparr>)"
       "isHorizontal ((module [])\<lparr>isHorizontal := True\<rparr>)"
    by (simp_all add: module_def)
  from exports_horizontal_scales [OF this, of scenario] show ?thesis
    by (simp add: chartHeight_exports module_def side_def scenario_def bandOf_def band_domain_def
          ordinal_domain_def)
qed

lemma aliases_exports: "aliases (exports dat st) = aliases st"
  by (simp add: exports_def Let_def drawGroupedBar_def buildLayers_def prepareData_def
        buildScales_def split: option.split prod.split)

text \<open>
  With the default aliases the vertical hit-tester never throws on the layers that the
  grouping engine builds, and returns the first match of the scan as the specification
  words it; so it does under every group alias but \<^verbatim>\<open>name\<close>.
\<close>

lemma nearest_vertical_first_match:
  assumes "groupLabel (aliases st) \<noteq> ''name''" and "\<not> isLoading st"
  shows "getNearestDataPoint (aliases (exports dat st)) (margin (exports dat st)) xS xS2
           (layers (exports dat st)) mouseX
         = Inr (first_match (hit_vertical (margin st) xS xS2 mouseX) (by_category dat))"
  unfolding aliases_exports exports_margin_kept
  by (rule nearest_vertical_canonical [OF assms(1) layers_values_exports [OF assms(2)]])

lemma nearest_vertical_scenario:
  "getNearestDataPoint (aliases (exports scenario (module []))) (margin (exports scenario (module [])))
        (bandOf [''A'', ''B''] (Fin 0, Fin 860) (1 / 10))
        (bandOf [''X'', ''Y''] (Fin 0, Fin 368) (1 / 10))
        (layers (exports scenario (module []))) 200
       = Inr (Some \<lparr>found = \<lparr>getName = ''A'', getGroup = ''X'', getValue = Fin 0\<rparr>,
                     found_values = [\<lparr>getName = ''A'', getGroup = ''X'', getValue = Fin 0\<rparr>,
                                     \<lparr>getName = ''A'', getGroup = ''Y'', getValue = Fin 0\<rparr>],
                     found_key = ''A''\<rparr>)"
proof -
  have m: "side (margin (module [])) ''left'' = Fin 70" "\<not> isLoading (module [])"
    "groupLabel (aliases (module [])) \<noteq> ''name''"
    by (simp_all add: module_def side_def)
  have near: "first_match (hit_vertical (margin (module []))
                        (bandOf [''A'', ''B''] (Fin 0, Fin 860) (1 / 10))
                        (bandOf [''X'', ''Y''] (Fin 0, Fin 368) (1 / 10)) 200)
                 (by_category scenario)
       = Some \<lparr>found = \<lparr>getName = ''A'', getGroup = ''X'', getValue = Fin 0\<rparr>,
                     found_values = [\<lparr>getName = ''A'', getGroup = ''X'', getValue = Fin 0\<rparr>,
                                     \<lparr>getName = ''A'', getGroup = ''Y'', getValue = Fin 0\<rparr>],
                     found_key = ''A''\<rparr>"
    by (simp add: scenario_by_category hit_vertical_def within_band_def m scenario_xScale
          scenario_xScale2)
  show ?thesis
    unfolding nearest_vertical_first_match [OF m(3) m(2)] near ..
qed

lemma alias_xScale:
  "band_apply (bandOf [''A''] (Fin 0, Fin 860) (1 / 10)) ''A'' = Some (Fin 79)"
  "band_bandwidth (bandOf [''A''] (Fin 0, Fin 860) (1 / 10)) = Fin 703"
  by (simp_all add: band_apply_def band_bandwidth_def bandOf_def band_padding_def
        band_rangeRound_def band_domain_def ordinal_domain_def scaleBand_def band_rescale_def
        Let_def Math_round_def)

lemma alias_xScale2:
  "band_apply (bandOf [''X''] (Fin 0, Fin 703) (1 / 10)) ''X'' = Some (Fin 64)"
  "band_apply (bandOf [''X''] (Fin 0, Fin 703) (1 / 10)) ''A'' = None"
  "band_bandwidth (bandOf [''X''] (Fin 0, Fin 703) (1 / 10)) = Fin 575"
  by (simp_all add: band_apply_def band_bandwidth_def bandOf_def band_padding_def
        band_rangeRound_def band_domain_def ordinal_domain_def scaleBand_def band_rescale_def
        Let_def Math_round_def)

text \<open>
  C4 (the code departs from the claim). A chart whose aliases are set to
  \<^verbatim>\<open>nameLabel('category')\<close> and \<^verbatim>\<open>groupLabel('name')\<close>, and the single row
  \<^verbatim>\<open>{name: 'X', category: 'A', value: 1}\<close>: the normalizer makes of it the record of
  category A and group X, and the vertical render builds \<^verbatim>\<open>xScale\<close> over the category
  A (position 79) and \<^verbatim>\<open>xScale2\<close> over the group X (position 64, bandwidth 575). The
  pointer x 213, less the left margin 70, is exactly at the band position 143 of the
  record, so the scan of the specification finds the record. The hit-tester reads
  \<^verbatim>\<open>d2[groupLabel]\<close>, which under this alias is the category A: \<^verbatim>\<open>xScale2\<close> has no
  position for it, and the hit-tester returns no result, there and at every other pointer.
\<close>

theorem getNearestDataPoint_misses_under_group_alias:
  "js_get (cleanRecord \<lparr>nameLabel = ''category'', valueLabel = ''value'', groupLabel = ''name''\<rparr>
             (\<lambda>s. NaN) [''name'' \<mapsto> JStr ''X'', ''category'' \<mapsto> JStr ''A'', ''value'' \<mapsto> JNum (Fin 1)])
          ''name'' = JStr ''A''
   \<and> js_get (cleanRecord \<lparr>nameLabel = ''category'', valueLabel = ''value'', groupLabel = ''name''\<rparr>
             (\<lambda>s. NaN) [''name'' \<mapsto> JStr ''X'', ''category'' \<mapsto> JStr ''A'', ''value'' \<mapsto> JNum (Fin 1)])
          ''group'' = JStr ''X''
   \<and> aliases (exports [\<lparr>getName = ''A'', getGroup = ''X'', getValue = Fin 1\<rparr>]
                (exports_groupLabel ''name'' (exports_nameLabel ''category'' (module []))))
       = \<lparr>nameLabel = ''category'', valueLabel = ''value'', groupLabel = ''name''\<rparr>
   \<and> xScale (exports [\<lparr>getName = ''A'', getGroup = ''X'', getValue = Fin 1\<rparr>]
                (exports_groupLabel ''name'' (exports_nameLabel ''category'' (module []))))
       = Some (Band (bandOf [''A''] (Fin 0, Fin 860) (1 / 10)))
   \<and> xScale2 (exports [\<lparr>getName = ''A'', getGroup = ''X'', getValue = Fin 1\<rparr>]
                (exports_groupLabel ''name'' (exports_nameLabel ''category'' (module []))))
       = Some (bandOf [''X''] (Fin 0, Fin 703) (1 / 10))
   \<and> (\<forall>mouseX.
        getNearestDataPoint \<lparr>nameLabel = ''category'', valueLabel = ''value'', groupLabel = ''name''\<rparr>
          (margin (exports [\<lparr>getName = ''A'', getGroup = ''X'', getValue = Fin 1\<rparr>]
                (exports_groupLabel ''name'' (exports_nameLabel ''category'' (module [])))))
          (bandOf [''A''] (Fin 0, Fin 860) (1 / 10)) (bandOf [''X''] (Fin 0, Fin 703) (1 / 10))
          (layers (exports [\<lparr>getName = ''A'', getGroup = ''X'', getValue = Fin 1\<rparr>]
                (exports_groupLabel ''name'' (exports_nameLabel ''category'' (module [])))))
          mouseX = Inr None)
   \<and> first_match
        (hit_vertical
          (margin (exports [\<lparr>getName = ''A'', getGroup = ''X'', getValue = Fin 1\<rparr>]
                (exports_groupLabel ''name'' (exports_nameLabel ''category'' (module [])))))
          (bandOf [''A''] (Fin 0, Fin 860) (1 / 10)) (bandOf [''X''] (Fin 0, Fin 703) (1 / 10)) 213)
        (by_category [\<lparr>getName = ''A'', getGroup = ''X'', getValue = Fin 1\<rparr>])
       = Some \<lparr>found = \<lparr>getName = ''A'', getGroup = ''X'', getValue = Fin 1\<rparr>,
               found_values = [\<lparr>getName = ''A'', getGroup = ''X'', getValue = Fin 1\<rparr>],
               found_key = ''A''\<rparr>"
proof -
  let ?l = "\<lparr>nameLabel = ''category'', valueLabel = ''value'', groupLabel = ''name''\<rparr>"
  let ?r = "\<lparr>getName = ''A'', getGroup = ''X'', getValue = Fin 1\<rparr>"
  let ?st = "exports_groupLabel ''name'' (exports_nameLabel ''category'' (module []))"
  let ?xS = "bandOf [''A''] (Fin 0, Fin 860) (1 / 10)"
  let ?xS2 = "bandOf [''X''] (Fin 0, Fin 703) (1 / 10)"
  have f: "\<not> isLoading ?st" "\<not> isHorizontal ?st" "betweenGroupsPadding ?st = 1 / 10"
    "aliases ?st = ?l" "margin ?st = margin (module [])"
    by (simp_all add: exports_groupLabel_def exports_nameLabel_def module_def)
  have m: "side (margin (module [])) ''left'' = Fin 70"
    by (simp add: module_def side_def)
  have w: "chartWidth (exports [?r] ?st) = Fin 860"
    by (simp add: chartWidth_exports exports_groupLabel_def exports_nameLabel_def module_def
          side_def)
  have row: "js_get (cleanRecord ?l (\<lambda>s. NaN)
               [''name'' \<mapsto> JStr ''X'', ''category'' \<mapsto> JStr ''A'', ''value'' \<mapsto> JNum (Fin 1)]) ''name''
             = JStr ''A''"
     "js_get (cleanRecord ?l (\<lambda>s. NaN)
               [''name'' \<mapsto> JStr ''X'', ''category'' \<mapsto> JStr ''A'', ''value'' \<mapsto> JNum (Fin 1)]) ''group''
             = JStr ''X''"
    by (simp_all add: cleanRecord_def Let_def js_get_upd)
  have al: "aliases (exports [?r] ?st) = ?l"
    by (simp add: aliases_exports f)
  have x: "xScale (exports [?r] ?st) = Some (Band ?xS)"
    using exports_vertical_scales(1) [OF f(1,2), of "[?r]"] by (simp add: w f)
  have x2: "xScale2 (exports [?r] ?st) = Some ?xS2"
    using exports_vertical_scales(2) [OF f(1,2), of "[?r]"] by (simp add: w f alias_xScale)
  have cat: "by_category [?r] = [[?r]]"
    by (simp add: by_category_def)
  have code: "getNearestDataPoint ?l (margin (exports [?r] ?st)) ?xS ?xS2
                (layers (exports [?r] ?st)) mouseX = Inr None" for mouseX
    unfolding nearest_vertical_scan [OF layers_values_exports [OF f(1)]] cat
    by (simp add: atGroupLabel_def alias_xScale alias_xScale2 within_band_NaN)
  have stated: "first_match (hit_vertical (margin (exports [?r] ?st)) ?xS ?xS2 213) (by_category [?r])
       = Some \<lparr>found = ?r, found_values = [?r], found_key = ''A''\<rparr>"
    unfolding cat exports_margin_kept f
    by (simp add: hit_vertical_def within_band_def m alias_xScale alias_xScale2)
  from row al x x2 code stated show ?thesis
    by blast
qed

text \<open>
  C5 (as amended). In horizontal orientation the hit-tester returns the first match of
  the same scan, where a record matches when its category position is at most the
  pointer y less the bottom margin and the distance between the two is at most twice the
  category bandwidth; it returns no result when no record matches, and never throws on
  the layers of the grouping engine.
\<close>

theorem getNearestDataPoint2_first_match_wins:
  "getNearestDataPoint2 mg yS (layers (buildLayers (prepareData dat st))) mouseY
     = Inr (first_match (hit_horizontal 2 mg yS mouseY) (by_category dat))
   \<and> (list_all (\<lambda>d. \<not> hit_horizontal 2 mg yS mouseY d) dat \<longrightarrow>
        getNearestDataPoint2 mg yS (layers (buildLayers (prepareData dat st))) mouseY = Inr None)
   \<and> (\<not> isLoading st \<and> isHorizontal st \<longrightarrow>
        (\<exists>yS. yScale (exports dat st) = Some (Band yS)
           \<and> b_domain yS = first_seen (map getName dat)
           \<and> getNearestDataPoint2 (margin (exports dat st)) yS (layers (exports dat st)) mouseY
               = Inr (first_match (hit_horizontal 2 (margin st) yS mouseY) (by_category dat))))"
proof -
  have scan: "getNearestDataPoint2 mg yS (layers (buildLayers (prepareData dat st))) mouseY
     = Inr (first_match (hit_horizontal 2 mg yS mouseY) (by_category dat))"
    by (rule nearest_horizontal_scan [OF layers_values])
  have none: "getNearestDataPoint2 mg yS (layers (buildLayers (prepareData dat st))) mouseY = Inr None"
    if "list_all (\<lambda>d. \<not> hit_horizontal 2 mg yS mouseY d) dat"
    using that by (simp add: scan first_match_no_record)
  have rendered: "\<exists>yS. yScale (exports dat st) = Some (Band yS)
           \<and> b_domain yS = first_seen (map getName dat)
           \<and> getNearestDataPoint2 (margin (exports dat st)) yS (layers (exports dat st)) mouseY
               = Inr (first_match (hit_horizontal 2 (margin st) yS mouseY) (by_category dat))"
    if "\<not> isLoading st" and "isHorizontal st"
    using exports_horizontal_scales [OF that, of dat]
          nearest_horizontal_scan [OF layers_values_exports [OF that(1)], where mg = "margin st"]
    by (simp add: exports_margin_kept bandOf_domain)
  from scan none rendered show ?thesis by blast
qed


theorem getNearestDataPoint2_first_match_wins_witness:
  "\<not> isLoading ((module [])\<lparr>isHorizontal := True\<rparr>) \<and> isHorizontal ((module [])\<lparr>isHorizontal := True\<rparr>)
   \<and> list_all (\<lambda>d. \<not> hit_horizontal 2 (margin (module []))
                        (bandOf [''A'', ''B''] (Fin 400, Fin 0) (1 / 10)) (- 1000) d) scenario
   \<and> getNearestDataPoint2 (margin (module [])) (bandOf [''A'', ''B''] (Fin 400, Fin 0) (1 / 10))
        (layers (buildLayers (prepareData scenario (module [])))) (- 1000) = Inr None
   \<and> getNearestDataPoint2 (margin (module [])) (bandOf [''A'', ''B''] (Fin 400, Fin 0) (1 / 10))
        (layers (buildLayers (prepareData scenario (module [])))) 100
       = Inr (Some \<lparr>found = \<lparr>getName = ''B'', getGroup = ''X'', getValue = Fin 10\<rparr>,
                     found_values = [\<lparr>getName = ''B'', getGroup = ''X'', getValue = Fin 10\<rparr>],
                     found_key = ''B''\<rparr>)"
proof -
  have m: "side (margin (module [])) ''bottom'' = Fin 60"
    "\<not> isLoading ((module [])\<lparr>isHorizontal := True\<rparr>)"
    "isHorizontal ((module [])\<lparr>isHorizontal := True\<rparr>)"
    by (simp_all add: module_def side_def)
  have all: "list_all (\<lambda>d. \<not> hit_horizontal 2 (margin (module []))
                        (bandOf [''A'', ''B''] (Fin 400, Fin 0) (1 / 10)) (- 1000) d) scenario"
    by (simp add: scenario_def hit_horizontal_def within_band_def m scenario_yScale)
  have near: "first_match (hit_horizontal 2 (margin (module []))
                        (bandOf [''A'', ''B''] (Fin 400, Fin 0) (1 / 10)) 100)
                 (by_category scenario)
       = Some \<lparr>found = \<lparr>getName = ''B'', getGroup = ''X'', getValue = Fin 10\<rparr>,
                     found_values = [\<lparr>getName = ''B'', getGroup = ''X'', getValue = Fin 10\<rparr>],
                     found_key = ''B''\<rparr>"
    by (simp add: scenario_by_category hit_horizontal_def within_band_def m scenario_yScale)
  note far = getNearestDataPoint2_first_match_wins
         [of "margin (module [])" "bandOf [''A'', ''B''] (Fin 400, Fin 0) (1 / 10)"
             scenario "module []" "- 1000"]
  from far all have none: "getNearestDataPoint2 (margin (module []))
        (bandOf [''A'', ''B''] (Fin 400, Fin 0) (1 / 10))
        (layers (buildLayers (prepareData scenario (module [])))) (- 1000) = Inr None"
    by blast
  note inside = getNearestDataPoint2_first_match_wins
         [of "margin (module [])" "bandOf [''A'', ''B''] (Fin 400, Fin 0) (1 / 10)"
             scenario "module []" 100]
  from inside have "getNearestDataPoint2 (margin (module []))
        (bandOf [''A'', ''B''] (Fin 400, Fin 0) (1 / 10))
        (layers (buildLayers (prepareData scenario (module [])))) 100
      = Inr (first_match (hit_horizontal 2 (margin (module []))
                        (bandOf [''A'', ''B''] (Fin 400, Fin 0) (1 / 10)) 100)
                 (by_category scenario))"
    by (rule conjunct1)
  then have hit: "getNearestDataPoint2 (margin (module []))
        (bandOf [''A'', ''B''] (Fin 400, Fin 0) (1 / 10))
        (layers (buildLayers (prepareData scenario (module [])))) 100
       = Inr (Some \<lparr>found = \<lparr>getName = ''B'', getGroup = ''X'', getValue = Fin 10\<rparr>,
                     found_values = [\<lparr>getName = ''B'', getGroup = ''X'', getValue = Fin 10\<rparr>],
                     found_key = ''B''\<rparr>)"
    by (simp only: near)
  from m(2,3) all none hit show ?thesis
    by blast
qed

text \<open>
  With the category bandwidth as the tolerance, as the specification has it, the scan
  finds nothing at pointer y 260 on the rendered end-to-end dataset (the adjusted
  pointer is 180 below the position of B, the bandwidth is 171); the hit-tester returns
  the record of B.
\<close>

theorem getNearestDataPoint2_counterexample:
  "yScale (exports scenario ((module [])\<lparr>isHorizontal := True\<rparr>))
     = Some (Band (bandOf [''A'', ''B''] (Fin 400, Fin 0) (1 / 10)))
   \<and> getNearestDataPoint2 (margin (module [])) (bandOf [''A'', ''B''] (Fin 400, Fin 0) (1 / 10))
        (layers (exports scenario ((module [])\<lparr>isHorizontal := True\<rparr>))) 260
       = Inr (Some \<lparr>found = \<lparr>getName = ''B'', getGroup = ''X'', getValue = Fin 10\<rparr>,
                     found_values = [\<lparr>getName = ''B'', getGroup = ''X'', getValue = Fin 10\<rparr>],
                     found_key = ''B''\<rparr>)
   \<and> first_match (hit_horizontal 1 (margin (module [])) (bandOf [''A'', ''B''] (Fin 400, Fin 0) (1 / 10)) 260)
        (by_category scenario) = None"
proof -
  have m: "side (margin (module [])) ''bottom'' = Fin 60"
    by (simp add: module_def side_def)
  have l: "\<not> isLoading ((module [])\<lparr>isHorizontal := True\<rparr>)"
    by (simp add: module_def)
  have code: "first_match (hit_horizontal 2 (margin (module [])) (bandOf [''A'', ''B''] (Fin 400, Fin 0) (1 / 10)) 260)
        (by_category scenario)
      = Some \<lparr>found = \<lparr>getName = ''B'', getGroup = ''X'', getValue = Fin 10\<rparr>,
                     found_values = [\<lparr>getName = ''B'', getGroup = ''X'', getValue = Fin 10\<rparr>],
                     found_key = ''B''\<rparr>"
    by (simp add: scenario_by_category hit_horizontal_def within_band_def m scenario_yScale)
  have stated: "first_match (hit_horizontal 1 (margin (module [])) (bandOf [''A'', ''B''] (Fin 400, Fin 0) (1 / 10)) 260)
        (by_category scenario) = None"
    by (simp add: scenario_by_category hit_horizontal_def within_band_def m scenario_yScale)
  from nearest_horizontal_scan
         [OF layers_values_exports [OF l, of scenario], where mg = "margin (module [])"
            and mouseY = 260 and yS = "bandOf [''A'', ''B''] (Fin 400, Fin 0) (1 / 10)"] code
  have "getNearestDataPoint2 (margin (module [])) (bandOf [''A'', ''B''] (Fin 400, Fin 0) (1 / 10))
        (layers (exports scenario ((module [])\<lparr>isHorizontal := True\<rparr>))) 260
       = Inr (Some \<lparr>found = \<lparr>getName = ''B'', getGroup = ''X'', getValue = Fin 10\<rparr>,
                     found_values = [\<lparr>getName = ''B'', getGroup = ''X'', getValue = Fin 10\<rparr>],
                     found_key = ''B''\<rparr>)"
    by simp
  with scenario_horizontal_yScale stated show ?thesis by blast
qed



subsection \<open>Padding of the band scales\<close>

text \<open>
  In vertical orientation \<^verbatim>\<open>buildScales\<close> passes \<^verbatim>\<open>betweenGroupsPadding\<close> to both band
  scales, so \<^verbatim>\<open>betweenBarsPadding\<close> has no effect on either of them.
\<close>

lemma buildScales_bars_padding_unused:
  "\<not> isHorizontal st \<Longrightarrow>
   xScale (buildScales (st\<lparr>betweenBarsPadding := p\<rparr>)) = xScale (buildScales st)
   \<and> xScale2 (buildScales (st\<lparr>betweenBarsPadding := p\<rparr>)) = xScale2 (buildScales st)"
  by (simp add: buildScales_vertical)

lemma buildScales_vertical_paddings:
  "\<not> isHorizontal st \<Longrightarrow>
   map_option b_paddingOuter (xScale2 (buildScales st)) = Some (betweenGroupsPadding st)"
  by (simp add: buildScales_vertical bandOf_def band_padding_def)

lemma buildScales_horizontal_paddings:
  "isHorizontal st \<Longrightarrow>
   map_option b_paddingOuter (yScale2 (buildScales st)) = Some (betweenBarsPadding st)"
  by (simp add: buildScales_horizontal bandOf_def band_padding_def)

lemma exports_horizontal_sub_scale:
  assumes "\<not> isLoading st" and "isHorizontal st"
  shows "map_option b_paddingOuter (yScale2 (exports dat st)) = Some (betweenBarsPadding st)"
  using assms
  by (simp add: exports_unfold drawGroupedBar_def buildLayers_def prepareData_def Let_def
        buildScales_horizontal buildScales_def bandOf_def band_padding_def
        split: option.split prod.split)

text \<open>
  C8 (the code departs from the claim). A chart with the default paddings, one tenth
  each, whose padding between bars is then set to one half, and the end-to-end dataset:
  rendered vertically, its group sub-scale \<^verbatim>\<open>xScale2\<close> has the padding one tenth and
  is the very scale of the chart whose padding between bars was left alone; rendered
  horizontally, its group sub-scale \<^verbatim>\<open>yScale2\<close> has the padding one half.
\<close>

theorem vertical_sub_scale_ignores_betweenBarsPadding:
  "map_option b_paddingOuter (xScale2 (exports scenario (exports_betweenBarsPadding (1 / 2) (module []))))
     = Some (1 / 10)
   \<and> xScale2 (exports scenario (exports_betweenBarsPadding (1 / 2) (module [])))
     = xScale2 (exports scenario (module []))
   \<and> map_option b_paddingOuter
        (yScale2 (exports scenario (exports_betweenBarsPadding (1 / 2) (exports_isHorizontal True (module [])))))
     = Some (1 / 2)"
proof -
  have v: "\<not> isLoading (exports_betweenBarsPadding (1 / 2) (module []))"
          "\<not> isHorizontal (exports_betweenBarsPadding (1 / 2) (module []))"
          "\<not> isLoading (module [])" "\<not> isHorizontal (module [])"
    by (simp_all add: exports_betweenBarsPadding_def module_def)
  have h: "\<not> isLoading (exports_betweenBarsPadding (1 / 2) (exports_isHorizontal True (module [])))"
          "isHorizontal (exports_betweenBarsPadding (1 / 2) (exports_isHorizontal True (module [])))"
    by (simp_all add: exports_betweenBarsPadding_def exports_isHorizontal_def module_def)
  have p: "betweenGroupsPadding (exports_betweenBarsPadding (1 / 2) (module [])) = 1 / 10"
    "betweenGroupsPadding (module []) = 1 / 10"
    "betweenBarsPadding (exports_betweenBarsPadding (1 / 2) (exports_isHorizontal True (module []))) = 1 / 2"
    by (simp_all add: exports_betweenBarsPadding_def exports_isHorizontal_def module_def)
  have w: "chartWidth (exports scenario (exports_betweenBarsPadding (1 / 2) (module []))) = Fin 860"
    "chartWidth (exports scenario (module [])) = Fin 860"
    by (simp_all add: chartWidth_exports exports_betweenBarsPadding_def module_def side_def)
  have changed: "xScale2 (exports scenario (exports_betweenBarsPadding (1 / 2) (module [])))
      = Some (bandOf (map getGroup scenario)
                (Fin 0, band_bandwidth (bandOf (map getName scenario) (Fin 0, Fin 860) (1 / 10)))
                (1 / 10))"
    using exports_vertical_scales(2) [OF v(1,2), of scenario] by (simp only: p w)
  have default: "xScale2 (exports scenario (module []))
      = Some (bandOf (map getGroup scenario)
                (Fin 0, band_bandwidth (bandOf (map getName scenario) (Fin 0, Fin 860) (1 / 10)))
                (1 / 10))"
    using exports_vertical_scales(2) [OF v(3,4), of scenario] by (simp only: p w)
  have outer: "b_paddingOuter (bandOf d r q) = q" for d r q
    by (simp add: bandOf_def band_padding_def)
  have horizontal: "map_option b_paddingOuter
        (yScale2 (exports scenario (exports_betweenBarsPadding (1 / 2) (exports_isHorizontal True (module [])))))
     = Some (1 / 2)"
    using exports_horizontal_sub_scale [OF h, of scenario] by (simp only: p)
  from changed default horizontal show ?thesis
    by (simp add: outer)
qed


subsection \<open>Colour map\<close>

lemma buildScales_nameToColorMap_kept:
  "nameToColorMap st = Some m \<Longrightarrow> nameToColorMap (buildScales st) = Some m"
  by (simp add: buildScales_def Let_def split: option.split prod.split)

lemma buildScales_nameToColorMap_derived:
  "nameToColorMap st = None \<Longrightarrow>
   nameToColorMap (buildScales st)
     = Some (fst (deriveColorMap (data st)
                    \<lparr>o_domain = first_seen (map getGroup (data st)), o_range = colorSchema st\<rparr>))"
  by (simp add: buildScales_def Let_def ordinal_domain_first_seen split: option.split prod.split)

lemma exports_nameToColorMap_kept:
  "nameToColorMap st = Some m \<Longrightarrow> nameToColorMap (exports dat st) = Some m"
  by (simp add: exports_def Let_def drawGroupedBar_def buildLayers_def prepareData_def
        buildScales_nameToColorMap_kept)

lemma exports_nameToColorMap_derived:
  "nameToColorMap st = None \<Longrightarrow> \<not> isLoading st \<Longrightarrow>
   nameToColorMap (exports dat st)
     = Some (fst (deriveColorMap dat
                    \<lparr>o_domain = first_seen (map getGroup dat), o_range = colorSchema st\<rparr>))"
  by (simp add: exports_def Let_def drawGroupedBar_def buildLayers_def prepareData_def
        buildScales_nameToColorMap_derived)

lemma perform_nameToColorMap_kept:
  "nameToColorMap st = Some m \<Longrightarrow> \<not> is_ColorMap c \<Longrightarrow> nameToColorMap (perform st c) = Some m"
  by (cases c)
     (simp_all add: exports_nameToColorMap_kept exports_colorSchema_def exports_margin_def
        exports_betweenBarsPadding_def exports_betweenGroupsPadding_def exports_height_def
        exports_width_def exports_isHorizontal_def exports_isLoading_def
        exports_nameLabel_def exports_groupLabel_def exports_valueLabel_def)

lemma run_nameToColorMap_kept:
  "nameToColorMap st = Some m \<Longrightarrow> list_all (\<lambda>c. \<not> is_ColorMap c) calls \<Longrightarrow>
   nameToColorMap (foldl perform st calls) = Some m"
  by (induction calls arbitrary: st) (simp_all add: perform_nameToColorMap_kept)

lemma dom_colorStep:
  "dom (fst (colorStep item acc d))
     = dom (fst acc) \<union> (if getName d = item \<and> getGroup d \<noteq> ''__proto__'' then {getGroup d} else {})"
  by (simp add: colorStep_def js_write_def split: prod.splits)

lemma dom_colorStep_fold:
  "dom (fst (foldl (colorStep item) acc ds))
     = dom (fst acc) \<union> (getGroup ` {d \<in> set ds. getName d = item} - {''__proto__''})"
  by (induction ds arbitrary: acc) (auto simp: dom_colorStep)

lemma dom_color_fold:
  "dom (fst (foldl (\<lambda>acc item. foldl (colorStep item) acc dat) acc items))
     = dom (fst acc) \<union> (getGroup ` {d \<in> set dat. getName d \<in> set items} - {''__proto__''})"
  by (induction items arbitrary: acc) (auto simp: dom_colorStep_fold)

lemma dom_deriveColorMap:
  "dom (fst (deriveColorMap dat cs)) = getGroup ` set dat - {''__proto__''}"
proof -
  have "{d \<in> set dat. getName d \<in> getName ` set dat} = set dat"
    by auto
  then show ?thesis
    by (simp add: deriveColorMap_def Let_def dom_color_fold ordinal_domain_first_seen set_first_seen)
qed

text \<open>
  C9. When the chart holds a colour map, the scale builder leaves it as it is, and so
  does every run of renders and other accessor calls that does not call the colour-map
  accessor, in particular a run that starts right after the accessor has stored an
  override; a later call of the accessor replaces it. Only a render of a chart without
  a map (and not loading) derives one from the data, with the groups of the data as
  its keys (but for a group called \<^verbatim>\<open>__proto__\<close>, which an object does not store as
  a key).
\<close>

theorem colorMap_override_kept:
  "(nameToColorMap st = Some m \<longrightarrow> nameToColorMap (buildScales st) = Some m)
   \<and> (nameToColorMap st = Some m \<and> list_all (\<lambda>c. \<not> is_ColorMap c) calls \<longrightarrow>
        nameToColorMap (foldl perform st calls) = Some m)
   \<and> (list_all (\<lambda>c. \<not> is_ColorMap c) calls \<longrightarrow>
        nameToColorMap (foldl perform (exports_colorMap (Some m) st) calls) = Some m)
   \<and> nameToColorMap (foldl perform st (calls @ [ColorMap x])) = x
   \<and> (nameToColorMap st = None \<and> \<not> isLoading st \<longrightarrow>
        nameToColorMap (exports dat st)
          = Some (fst (deriveColorMap dat
                         \<lparr>o_domain = first_seen (map getGroup dat), o_range = colorSchema st\<rparr>))
        \<and> dom (fst (deriveColorMap dat
                         \<lparr>o_domain = first_seen (map getGroup dat), o_range = colorSchema st\<rparr>))
            = getGroup ` set dat - {''__proto__''})"
proof -
  have set: "nameToColorMap (exports_colorMap (Some m) st) = Some m"
    by (simp add: exports_colorMap_def)
  have replaced: "nameToColorMap (foldl perform st (calls @ [ColorMap x])) = x"
    by (simp add: exports_colorMap_def)
  from buildScales_nameToColorMap_kept [of st m] run_nameToColorMap_kept [of st m calls]
       run_nameToColorMap_kept [OF set, of calls] replaced
       exports_nameToColorMap_derived [of st dat] dom_deriveColorMap
  show ?thesis by blast
qed

theorem colorMap_override_kept_witness:
  "nameToColorMap (exports_colorMap (Some [''X'' \<mapsto> Some ''#6aedc7'']) (module [])) = Some [''X'' \<mapsto> Some ''#6aedc7'']
   \<and> list_all (\<lambda>c. \<not> is_ColorMap c) [Render scenario, IsHorizontal True, Render [], Render scenario]
   \<and> nameToColorMap (foldl perform (exports_colorMap (Some [''X'' \<mapsto> Some ''#6aedc7'']) (module []))
                        [Render scenario, IsHorizontal True, Render [], Render scenario])
       = Some [''X'' \<mapsto> Some ''#6aedc7'']
   \<and> nameToColorMap (module [''red'', ''blue'']) = None \<and> \<not> isLoading (module [''red'', ''blue''])
   \<and> map_option (\<lambda>m. (m ''X'', m ''Y'', m ''A'')) (nameToColorMap (exports scenario (module [''red'', ''blue''])))
       = Some (Some (Some ''red''), Some (Some ''blue''), None)"
proof -
  have a: "nameToColorMap (exports_colorMap (Some [''X'' \<mapsto> Some ''#6aedc7'']) (module [])) = Some [''X'' \<mapsto> Some ''#6aedc7'']"
    by (simp add: exports_colorMap_def)
  have b: "list_all (\<lambda>c. \<not> is_ColorMap c) [Render scenario, IsHorizontal True, Render [], Render scenario]"
    by simp
  have c: "nameToColorMap (module [''red'', ''blue'']) = None" "\<not> isLoading (module [''red'', ''blue''])"
    "colorSchema (module [''red'', ''blue'']) = [''red'', ''blue'']"
    by (simp_all add: module_def)
  have d: "(\<lambda>m. (m ''X'', m ''Y'', m ''A''))
             (fst (deriveColorMap scenario \<lparr>o_domain = first_seen (map getGroup scenario), o_range = [''red'', ''blue'']\<rparr>))
           = (Some (Some ''red''), Some (Some ''blue''), None)"
    by (simp add: deriveColorMap_def Let_def scenario_def ordinal_domain_def colorStep_def
          ordinal_call_def mod_Suc js_write_def)
  note t1 = colorMap_override_kept
       [of "exports_colorMap (Some [''X'' \<mapsto> Some ''#6aedc7'']) (module [])" "[''X'' \<mapsto> Some ''#6aedc7'']"
           "[Render scenario, IsHorizontal True, Render [], Render scenario]"]
  from t1 a b have kept: "nameToColorMap (foldl perform (exports_colorMap (Some [''X'' \<mapsto> Some ''#6aedc7'']) (module []))
                        [Render scenario, IsHorizontal True, Render [], Render scenario])
       = Some [''X'' \<mapsto> Some ''#6aedc7'']"
    by blast
  note t2 = colorMap_override_kept [of "module [''red'', ''blue'']" _ _ _ scenario]
  from t2 c have "nameToColorMap (exports scenario (module [''red'', ''blue'']))
          = Some (fst (deriveColorMap scenario
                         \<lparr>o_domain = first_seen (map getGroup scenario), o_range = [''red'', ''blue'']\<rparr>))"
    by simp
  with d have derived: "map_option (\<lambda>m. (m ''X'', m ''Y'', m ''A'')) (nameToColorMap (exports scenario (module [''red'', ''blue''])))
       = Some (Some (Some ''red''), Some (Some ''blue''), None)"
    by simp
  from a b kept c(1,2) derived show ?thesis by blast
qed


end
